theory Spec2Isabelle
  imports Complex_Main "HOL-Library.Word"
begin

section \<open>JavaScript values used by the application\<close>

text \<open>
  A JavaScript string is a sequence of UTF-16 code units. String literals of the source
  are written with \<open>js\<close>; they are all ASCII. \<open>+=\<close> on strings is \<open>@\<close>, and a string
  is truthy exactly when it is not empty.
\<close>

type_synonym js_string = "16 word list"

definition js :: "string \<Rightarrow> js_string" where
  "js s = map of_char s"

definition truthy :: "js_string \<Rightarrow> bool" where
  "truthy s = (s \<noteq> [])"

text \<open>
  \<open>String.prototype.trim\<close> strips the code units of ECMAScript's WhiteSpace and
  LineTerminator productions from both ends: TAB, LF, VT, FF, CR, SPACE, NBSP, U+1680,
  U+2000..U+200A, U+2028, U+2029, U+202F, U+205F, U+3000 and U+FEFF.
\<close>

definition is_white :: "16 word \<Rightarrow> bool" where
  "is_white c =
     (c = 9 \<or> c = 10 \<or> c = 11 \<or> c = 12 \<or> c = 13 \<or> c = 32 \<or> c = 160 \<or> c = 5760 \<or>
      (8192 \<le> c \<and> c \<le> 8202) \<or> c = 8232 \<or> c = 8233 \<or> c = 8239 \<or> c = 8287 \<or>
      c = 12288 \<or> c = 65279)"

definition trim :: "js_string \<Rightarrow> js_string" where
  "trim s = rev (dropWhile is_white (rev (dropWhile is_white s)))"

text \<open>
  A thrown value is either an \<open>Error\<close> object with its message, or anything else
  (\<open>err instanceof Error\<close> is false). A promise is modelled by how it settles.
\<close>

datatype thrown = Error js_string | NonError

datatype 'a promise = Resolved 'a | Rejected thrown

text \<open>
  What \<open>+=\<close> appends to a string for an operand that is a string or undefined
  (\<open>ToString\<close> of the operand).
\<close>

definition ToString :: "js_string option \<Rightarrow> js_string" where
  "ToString v = (case v of Some s \<Rightarrow> s | None \<Rightarrow> js ''undefined'')"

text \<open>\<open>err instanceof Error ? err.message : fallback\<close>, as both \<open>catch\<close> blocks compute it.\<close>

definition thrown_message :: "string \<Rightarrow> thrown \<Rightarrow> js_string" where
  "thrown_message fallback err = (case err of Error m \<Rightarrow> m | NonError \<Rightarrow> js fallback)"

section \<open>The live hook: \<open>src/hooks/useGeminiLive.ts\<close>\<close>

subsection \<open>Browser and SDK objects\<close>

text \<open>
  A media stream is known by its tracks, an audio context by its state and sample rate,
  a script processor by the arguments of \<open>createScriptProcessor\<close>. A live session is
  known by whether its \<open>close()\<close> throws. A server message carries an optional
  \<open>serverContent\<close> with an optional \<open>inputTranscription\<close> object and an optional
  \<open>turnComplete\<close> flag; the transcription object has an optional \<open>text\<close> (the field
  \<open>transcription_text\<close> here). The handler tests the object and appends its \<open>text\<close> to a
  string: an undefined \<open>text\<close> is appended as the seven characters \<open>undefined\<close>.
\<close>

datatype MediaStream = MediaStream (getTracks: "nat list")

datatype AudioContextState = suspended | running | closed

record AudioContext =
  state :: AudioContextState
  sampleRate :: nat

datatype ScriptProcessorNode = ScriptProcessorNode nat nat nat

datatype LiveSession = LiveSession (close_throws: bool)

record InputTranscription =
  transcription_text :: "js_string option"

record LiveServerContent =
  inputTranscription :: "InputTranscription option"
  turnComplete :: "bool option"

record LiveServerMessage =
  serverContent :: "LiveServerContent option"

subsection \<open>Observable calls\<close>

text \<open>
  Every call the hook makes to the outside (its three props, the console, the SDK and the
  browser's media objects) is appended to a trace, together with the content of
  \<open>currentInputTranscriptionRef\<close> at the moment of the call. The last two effects are
  the external calls of the file upload in \<open>App.tsx\<close>.
\<close>

datatype effect =
    OnTranscriptionUpdate js_string
  | OnTranscriptionComplete js_string
  | OnError js_string
  | ConsoleError js_string
  | GetUserMedia
  | NewAudioContext
  | LiveConnect
  | SourceConnect
  | ScriptProcessorConnect
  | SessionClose
  | TrackStop nat
  | ScriptProcessorDisconnect
  | AudioContextClose
  | ReadAsDataURL
  | GenerateContent

record call =
  effect :: effect
  buffer_at_call :: js_string

subsection \<open>State of the hook\<close>

record hook =
  isRecording :: bool
  isInitializing :: bool
  sessionPromiseRef :: "LiveSession promise option"
  mediaStreamRef :: "MediaStream option"
  audioContextRef :: "AudioContext option"
  scriptProcessorRef :: "ScriptProcessorNode option"
  currentInputTranscriptionRef :: js_string
  trace :: "call list"

definition useGeminiLive :: hook where
  "useGeminiLive =
     \<lparr>isRecording = False, isInitializing = False, sessionPromiseRef = None,
      mediaStreamRef = None, audioContextRef = None, scriptProcessorRef = None,
      currentInputTranscriptionRef = [], trace = []\<rparr>"

definition perform :: "effect \<Rightarrow> hook \<Rightarrow> hook" where
  "perform e h =
     h\<lparr>trace := trace h @ [\<lparr>effect = e, buffer_at_call = currentInputTranscriptionRef h\<rparr>]\<rparr>"

text \<open>The effects a handler run added to the trace.\<close>

definition emitted :: "hook \<Rightarrow> hook \<Rightarrow> effect list" where
  "emitted h h' = map effect (drop (length (trace h)) (trace h'))"

subsection \<open>\<open>stopAudioProcessing\<close> (lines 26-39)\<close>

definition stopAudioProcessing :: "hook \<Rightarrow> hook" where
  "stopAudioProcessing h0 =
     (let h1 = (case mediaStreamRef h0 of
                  Some ms \<Rightarrow>
                    (foldl (\<lambda>h track. perform (TrackStop track) h) h0 (getTracks ms))
                      \<lparr>mediaStreamRef := None\<rparr>
                | None \<Rightarrow> h0);
          h2 = (case scriptProcessorRef h1 of
                  Some sp \<Rightarrow> (perform ScriptProcessorDisconnect h1)\<lparr>scriptProcessorRef := None\<rparr>
                | None \<Rightarrow> h1);
          h3 = (case audioContextRef h2 of
                  Some ctx \<Rightarrow>
                    if state ctx \<noteq> closed
                    then (perform AudioContextClose h2)\<lparr>audioContextRef := None\<rparr>
                    else h2
                | None \<Rightarrow> h2)
      in h3)"

subsection \<open>\<open>stop\<close> (lines 41-60)\<close>

text \<open>
  The \<open>try\<close> block awaits the session promise and calls \<open>close()\<close>; a rejected promise or
  a throwing \<open>close()\<close> runs the \<open>catch\<close> block. The \<open>finally\<close> block runs in both cases.
  The handler is taken as one transition: nothing else runs between its \<open>await\<close> and
  its \<open>finally\<close> block.
\<close>

definition stop_catch :: "hook \<Rightarrow> hook" where
  "stop_catch h =
     perform (OnError (js ''Failed to close the connection properly.''))
       (perform (ConsoleError (js ''Error closing session:'')) h)"

definition stop_try :: "LiveSession promise \<Rightarrow> hook \<Rightarrow> hook" where
  "stop_try p h =
     (case p of
        Resolved session \<Rightarrow>
          (let h' = perform SessionClose h
           in if close_throws session then stop_catch h' else h')
      | Rejected e \<Rightarrow> stop_catch h)"

definition stop_finally :: "hook \<Rightarrow> hook" where
  "stop_finally h0 =
     (let h1 = h0\<lparr>sessionPromiseRef := None\<rparr>;
          h2 = stopAudioProcessing h1
      in if truthy (currentInputTranscriptionRef h2)
         then (perform (OnTranscriptionComplete (currentInputTranscriptionRef h2)) h2)
                \<lparr>currentInputTranscriptionRef := []\<rparr>
         else h2)"

definition stop :: "hook \<Rightarrow> hook" where
  "stop h =
     (case sessionPromiseRef h of
        None \<Rightarrow> h
      | Some p \<Rightarrow> stop_finally (stop_try p (h\<lparr>isRecording := False\<rparr>)))"

subsection \<open>\<open>start\<close> (lines 63-138) and the session callbacks\<close>

text \<open>
  What \<open>start\<close> reads from its environment: the API key, how \<open>getUserMedia\<close> settles,
  whether the \<open>AudioContext\<close> constructor throws, and how the promise returned by
  \<open>ai.live.connect\<close> settles. That promise is stored without being awaited, so its
  rejection is not an exception of \<open>start\<close>. A new audio context is not closed.
\<close>

record environment =
  API_KEY :: "js_string option"

record start_env = environment +
  getUserMedia :: "MediaStream promise"
  newAudioContext :: "thrown option"
  connect :: "LiveSession promise"

definition no_API_KEY :: "'a environment_scheme \<Rightarrow> bool" where
  "no_API_KEY env = (case API_KEY env of None \<Rightarrow> True | Some k \<Rightarrow> \<not> truthy k)"

definition start_try :: "start_env \<Rightarrow> hook \<Rightarrow> (thrown \<times> hook) + hook" where
  "start_try env h0 =
     (if no_API_KEY env
      then Inl (Error (js ''API_KEY environment variable not set.''), h0)
      else
        let h1 = perform GetUserMedia h0 in
        case getUserMedia env of
          Rejected e \<Rightarrow> Inl (e, h1)
        | Resolved ms \<Rightarrow>
            let h2 = perform NewAudioContext (h1\<lparr>mediaStreamRef := Some ms\<rparr>) in
            (case newAudioContext env of
               Some e \<Rightarrow> Inl (e, h2)
             | None \<Rightarrow>
                 let h3 = h2\<lparr>audioContextRef := Some \<lparr>state = running, sampleRate = 16000\<rparr>\<rparr>;
                     h4 = perform LiveConnect h3
                 in Inr (h4\<lparr>sessionPromiseRef := Some (connect env)\<rparr>)))"

definition start_catch :: "thrown \<Rightarrow> hook \<Rightarrow> hook" where
  "start_catch err h0 =
     (let errorMessage = thrown_message ''An unknown error occurred.'' err;
          h1 = perform (ConsoleError (js ''Failed to start recording:'')) h0;
          h2 = perform (OnError errorMessage) h1;
          h3 = h2\<lparr>isInitializing := False\<rparr>;
          h4 = h3\<lparr>isRecording := False\<rparr>
      in stopAudioProcessing h4)"

definition start :: "start_env \<Rightarrow> hook \<Rightarrow> hook" where
  "start env h =
     (case start_try env (h\<lparr>isInitializing := True\<rparr>) of
        Inr h' \<Rightarrow> h'
      | Inl (err, h') \<Rightarrow> start_catch err h')"

definition onopen :: "hook \<Rightarrow> hook" where
  "onopen h0 =
     (case (mediaStreamRef h0, audioContextRef h0) of
        (Some ms, Some ctx) \<Rightarrow>
          (let h1 = h0\<lparr>scriptProcessorRef := Some (ScriptProcessorNode 4096 1 1)\<rparr>;
               h2 = perform SourceConnect h1;
               h3 = perform ScriptProcessorConnect h2;
               h4 = h3\<lparr>isInitializing := False\<rparr>
           in h4\<lparr>isRecording := True\<rparr>)
      | _ \<Rightarrow> h0)"

text \<open>Optional chaining on the message: \<open>message.serverContent?.field\<close>.\<close>

definition message_inputTranscription :: "LiveServerMessage \<Rightarrow> InputTranscription option" where
  "message_inputTranscription message =
     (case serverContent message of None \<Rightarrow> None | Some sc \<Rightarrow> inputTranscription sc)"

definition message_turnComplete :: "LiveServerMessage \<Rightarrow> bool" where
  "message_turnComplete message =
     (case serverContent message of
        None \<Rightarrow> False
      | Some sc \<Rightarrow> (case turnComplete sc of None \<Rightarrow> False | Some b \<Rightarrow> b))"

definition onmessage :: "LiveServerMessage \<Rightarrow> hook \<Rightarrow> hook" where
  "onmessage message h0 =
     (let h1 = (case message_inputTranscription message of
                  Some transcription \<Rightarrow>
                    (let text = transcription_text transcription;
                         h = h0\<lparr>currentInputTranscriptionRef :=
                                   currentInputTranscriptionRef h0 @ ToString text\<rparr>
                     in perform (OnTranscriptionUpdate (currentInputTranscriptionRef h)) h)
                | None \<Rightarrow> h0)
      in if message_turnComplete message
         then (let fullTranscription = currentInputTranscriptionRef h1;
                   h2 = h1\<lparr>currentInputTranscriptionRef := []\<rparr>
               in perform (OnTranscriptionComplete fullTranscription) h2)
         else h1)"

definition onerror :: "js_string \<Rightarrow> hook \<Rightarrow> hook" where
  "onerror e_message h0 =
     (let h1 = perform (ConsoleError (js ''Gemini Live API Error:'')) h0;
          h2 = perform (OnError (js ''Connection error: '' @ e_message)) h1;
          h3 = h2\<lparr>isRecording := False\<rparr>;
          h4 = h3\<lparr>isInitializing := False\<rparr>
      in stopAudioProcessing h4)"

text \<open>The handler applied to a sequence of server messages, in arrival order.\<close>

definition onmessages :: "LiveServerMessage list \<Rightarrow> hook \<Rightarrow> hook" where
  "onmessages messages h = foldl (\<lambda>h' message. onmessage message h') h messages"

subsection \<open>Derived descriptions used in the statements\<close>

text \<open>A call stamped with the buffer content of the state it is made in.\<close>

definition stamp :: "hook \<Rightarrow> effect \<Rightarrow> call" where
  "stamp h e = \<lparr>effect = e, buffer_at_call = currentInputTranscriptionRef h\<rparr>"

text \<open>The device calls \<open>stopAudioProcessing\<close> makes in a state, in order.\<close>

definition release_effects :: "hook \<Rightarrow> effect list" where
  "release_effects h =
     (case mediaStreamRef h of Some ms \<Rightarrow> map TrackStop (getTracks ms) | None \<Rightarrow> []) @
     (case scriptProcessorRef h of Some sp \<Rightarrow> [ScriptProcessorDisconnect] | None \<Rightarrow> []) @
     (case audioContextRef h of
        Some ctx \<Rightarrow> if state ctx \<noteq> closed then [AudioContextClose] else []
      | None \<Rightarrow> [])"

text \<open>
  What a message makes the handler append: the \<open>text\<close> of its transcription object, as
  \<open>+=\<close> converts it; nothing when the message has no transcription object.
\<close>

definition message_text :: "LiveServerMessage \<Rightarrow> js_string" where
  "message_text message =
     (case message_inputTranscription message of
        Some transcription \<Rightarrow> ToString (transcription_text transcription)
      | None \<Rightarrow> [])"

text \<open>
  The concatenation, in arrival order, of the fragments received since the last message
  with a turn-complete signal, or of all of them when there was none. A message's
  fragment is handled before its own turn-complete signal.
\<close>

definition fragments_since_turnComplete :: "LiveServerMessage list \<Rightarrow> js_string" where
  "fragments_since_turnComplete messages =
     concat (map message_text
       (rev (takeWhile (\<lambda>message. \<not> message_turnComplete message) (rev messages))))"

fun is_OnTranscriptionComplete :: "effect \<Rightarrow> bool" where
  "is_OnTranscriptionComplete (OnTranscriptionComplete t) = True"
| "is_OnTranscriptionComplete e = False"

fun is_OnError :: "effect \<Rightarrow> bool" where
  "is_OnError (OnError t) = True"
| "is_OnError e = False"

text \<open>The device calls and callbacks of \<open>stop\<close>'s \<open>try\<close> and \<open>catch\<close> blocks.\<close>

definition stop_try_effects :: "LiveSession promise \<Rightarrow> effect list" where
  "stop_try_effects p =
     (case p of
        Resolved session \<Rightarrow>
          SessionClose #
          (if close_throws session
           then [ConsoleError (js ''Error closing session:''),
                 OnError (js ''Failed to close the connection properly.'')]
           else [])
      | Rejected e \<Rightarrow>
          [ConsoleError (js ''Error closing session:''),
           OnError (js ''Failed to close the connection properly.'')])"

text \<open>Audio resources are released: no stream, no processor, no open audio context.\<close>

definition audio_released :: "hook \<Rightarrow> bool" where
  "audio_released h =
     (mediaStreamRef h = None \<and> scriptProcessorRef h = None \<and>
      (case audioContextRef h of None \<Rightarrow> True | Some ctx \<Rightarrow> state ctx = closed))"

section \<open>PCM encoding: \<open>createPcmBlob\<close> (lines 143-153)\<close>

text \<open>
  An element of a \<open>Float32Array\<close>, read as a JavaScript number: a finite value (a
  rational; both zeros are \<open>Finite 0\<close>), an infinity or NaN. The product
  \<open>data[i] * 32768\<close> is computed in double precision; as \<open>32768 = 2^15\<close> and a single
  precision value scaled by it stays within the range of doubles, the product is exact.
  Storing a number into an \<open>Int16Array\<close> applies ECMAScript's \<open>ToInt16\<close>: NaN and the
  infinities become 0, any other value is truncated towards zero and reduced modulo
  \<open>2^16\<close>, which is what a 16-bit word keeps of an integer.
\<close>

datatype number = Finite rat | PosInfinity | NegInfinity | NaN

definition times_32768 :: "number \<Rightarrow> number" where
  "times_32768 x =
     (case x of Finite r \<Rightarrow> Finite (r * 32768) | PosInfinity \<Rightarrow> PosInfinity
      | NegInfinity \<Rightarrow> NegInfinity | NaN \<Rightarrow> NaN)"

definition truncate_towards_zero :: "rat \<Rightarrow> int" where
  "truncate_towards_zero r = (if 0 \<le> r then \<lfloor>r\<rfloor> else \<lceil>r\<rceil>)"

definition ToInt16 :: "number \<Rightarrow> 16 word" where
  "ToInt16 x = (case x of Finite r \<Rightarrow> word_of_int (truncate_towards_zero r) | _ \<Rightarrow> 0)"


text \<open>The \<open>for\<close> loop of lines 146-148, from index \<open>i\<close>.\<close>

function createPcmBlob_loop :: "nat \<Rightarrow> nat \<Rightarrow> number list \<Rightarrow> 16 word list \<Rightarrow> 16 word list" where
  "createPcmBlob_loop i l samples int16 =
     (if i < l
      then createPcmBlob_loop (i + 1) l samples (int16[i := ToInt16 (times_32768 (samples ! i))])
      else int16)"
  by pat_completeness auto
termination
  by (relation "measure (\<lambda>(i, l, samples, int16). l - i)") auto

text \<open>The loop's equation is unfolded by hand, never by the simplifier.\<close>

declare createPcmBlob_loop.simps [simp del]

text \<open>The \<open>Int16Array\<close> the function fills: \<open>new Int16Array(l)\<close> is all zeros.\<close>

definition createPcmBlob_int16 :: "number list \<Rightarrow> 16 word list" where
  "createPcmBlob_int16 samples =
     (let l = length samples in createPcmBlob_loop 0 l samples (replicate l 0))"

text \<open>
  \<open>new Uint8Array(int16.buffer)\<close>: the bytes of the samples, low byte first (typed arrays
  use the platform's byte order, little-endian on the platforms browsers run on).
  \<open>encode\<close> comes from \<open>utils/audioUtils\<close>, which is not part of the sources at hand: it
  is a parameter.
\<close>

definition Uint8Array_of_buffer :: "16 word list \<Rightarrow> 8 word list" where
  "Uint8Array_of_buffer int16 = concat (map (\<lambda>w. [ucast w, ucast (drop_bit 8 w)]) int16)"



section \<open>The application: \<open>src/App.tsx\<close>\<close>

text \<open>
  A transcription record has an identifier (\<open>Date.now()\<close>), a text and a source label
  (the fields \<open>id\<close>, \<open>text\<close> and \<open>from\<close> of the source). The state of the component is
  its five \<open>useState\<close> cells, the value of the file input that \<open>fileInputRef\<close> points to
  (\<open>None\<close> while no file input is mounted, which is the case in live mode), and the log of
  its external calls.
\<close>

record Transcription =
  id_field :: nat
  text_field :: js_string
  from_field :: js_string

datatype Mode = LiveMode | FileMode

record File =
  name :: js_string
  mime :: js_string

record App =
  transcripts :: "Transcription list"
  currentTranscription :: js_string
  error :: "js_string option"
  mode :: Mode
  isProcessingFile :: bool
  fileInputRef :: "js_string option"
  calls :: "effect list"

definition App_initial :: App where
  "App_initial =
     \<lparr>transcripts = [], currentTranscription = [], error = None, mode = LiveMode,
      isProcessingFile = False, fileInputRef = None, calls = []\<rparr>"

definition handleTranscriptionUpdate :: "js_string \<Rightarrow> App \<Rightarrow> App" where
  "handleTranscriptionUpdate text a = a\<lparr>currentTranscription := text\<rparr>"

definition handleTranscriptionComplete :: "nat \<Rightarrow> js_string \<Rightarrow> App \<Rightarrow> App" where
  "handleTranscriptionComplete now text a0 =
     (let a1 = (if truthy (trim text)
                then a0\<lparr>transcripts := transcripts a0 @
                        [\<lparr>id_field = now, text_field = text,
                          from_field = js ''Live Recording''\<rparr>]\<rparr>
                else a0)
      in a1\<lparr>currentTranscription := []\<rparr>)"

definition handleError :: "js_string \<Rightarrow> App \<Rightarrow> App" where
  "handleError err a = a\<lparr>error := Some err\<rparr>"

text \<open>
  Switching the mode mounts or unmounts the file input; a newly mounted input has the
  empty value.
\<close>

definition setMode :: "Mode \<Rightarrow> App \<Rightarrow> App" where
  "setMode m a =
     a\<lparr>mode := m,
       fileInputRef := (case m of
                          LiveMode \<Rightarrow> None
                        | FileMode \<Rightarrow> (if mode a = FileMode then fileInputRef a else Some []))\<rparr>"

subsection \<open>\<open>handleFileUpload\<close> (lines 54-103)\<close>

text \<open>
  The environment of an upload: the API key, how reading the file as base64 settles and
  how \<open>generateContent\<close> settles; \<open>response.text\<close> may be undefined, in which case
  \<open>transcriptionText.trim()\<close> throws a \<open>TypeError\<close> (with the message V8 gives it). The
  handler is taken as one transition.
\<close>

record upload_env = environment +
  toBase64 :: "js_string promise"
  generateContent :: "js_string option promise"

definition trim_of_undefined :: thrown where
  "trim_of_undefined =
     Error (js ''Cannot read properties of undefined (reading '' @ [39] @ js ''trim'' @ [39] @
            js '')'')"

definition handleFileUpload_try :: "upload_env \<Rightarrow> nat \<Rightarrow> File \<Rightarrow> App \<Rightarrow> (thrown \<times> App) + App" where
  "handleFileUpload_try env now file a0 =
     (if no_API_KEY env
      then Inl (Error (js ''API_KEY environment variable not set.''), a0)
      else
        let a1 = a0\<lparr>calls := calls a0 @ [ReadAsDataURL]\<rparr> in
        case toBase64 env of
          Rejected e \<Rightarrow> Inl (e, a1)
        | Resolved base64Data \<Rightarrow>
            let a2 = a1\<lparr>calls := calls a1 @ [GenerateContent]\<rparr> in
            (case generateContent env of
               Rejected e \<Rightarrow> Inl (e, a2)
             | Resolved None \<Rightarrow> Inl (trim_of_undefined, a2)
             | Resolved (Some transcriptionText) \<Rightarrow>
                 if truthy (trim transcriptionText)
                 then Inr (a2\<lparr>transcripts := transcripts a2 @
                             [\<lparr>id_field = now, text_field = transcriptionText,
                               from_field = name file\<rparr>]\<rparr>)
                 else Inr a2))"

definition handleFileUpload_catch :: "thrown \<Rightarrow> App \<Rightarrow> App" where
  "handleFileUpload_catch err a0 =
     (let errorMessage =
            thrown_message ''An unknown error occurred during file transcription.'' err;
          a1 = a0\<lparr>calls := calls a0 @ [ConsoleError (js ''File transcription error:'')]\<rparr>
      in a1\<lparr>error := Some errorMessage\<rparr>)"

definition handleFileUpload_finally :: "App \<Rightarrow> App" where
  "handleFileUpload_finally a0 =
     (let a1 = a0\<lparr>isProcessingFile := False\<rparr>
      in case fileInputRef a1 of
           Some v \<Rightarrow> a1\<lparr>fileInputRef := Some []\<rparr>
         | None \<Rightarrow> a1)"

definition handleFileUpload :: "upload_env \<Rightarrow> nat \<Rightarrow> File option \<Rightarrow> App \<Rightarrow> App" where
  "handleFileUpload env now file_opt a0 =
     (case file_opt of
        None \<Rightarrow> a0
      | Some file \<Rightarrow>
          let a1 = a0\<lparr>error := None\<rparr>;
              a2 = a1\<lparr>isProcessingFile := True\<rparr>;
              a3 = (case handleFileUpload_try env now file a2 of
                      Inr a \<Rightarrow> a
                    | Inl (err, a) \<Rightarrow> handleFileUpload_catch err a)
          in handleFileUpload_finally a3)"

subsection \<open>The component and its hook together\<close>

text \<open>
  The hook's props are the three handlers of the component (lines 33-37): each callback the
  hook makes is delivered to its handler, in the order of the calls.
\<close>

record system =
  app :: App
  live :: hook

definition system_initial :: system where
  "system_initial = \<lparr>app = App_initial, live = useGeminiLive\<rparr>"

fun deliver :: "nat \<Rightarrow> App \<Rightarrow> effect \<Rightarrow> App" where
  "deliver now a (OnTranscriptionUpdate text) = handleTranscriptionUpdate text a"
| "deliver now a (OnTranscriptionComplete text) = handleTranscriptionComplete now text a"
| "deliver now a (OnError err) = handleError err a"
| "deliver now a e = a"

definition run_hook :: "nat \<Rightarrow> (hook \<Rightarrow> hook) \<Rightarrow> system \<Rightarrow> system" where
  "run_hook now f s =
     (let h' = f (live s)
      in \<lparr>app = foldl (deliver now) (app s) (emitted (live s) h'), live = h'\<rparr>)"

text \<open>
  \<open>toggleRecording\<close> (lines 45-52), and the events the component and its session react
  to. \<open>now\<close> is the reading of \<open>Date.now()\<close> during the event; \<open>onopen\<close> and \<open>onerror\<close>
  make no call that reads the clock, so their events carry none.
\<close>

definition toggleRecording :: "start_env \<Rightarrow> nat \<Rightarrow> system \<Rightarrow> system" where
  "toggleRecording env now s0 =
     (let s1 = s0\<lparr>app := (app s0)\<lparr>error := None\<rparr>\<rparr>
      in if isRecording (live s1) then run_hook now stop s1 else run_hook now (start env) s1)"

datatype event =
    ToggleRecording start_env nat
  | Open
  | Message LiveServerMessage nat
  | ConnectionError js_string
  | SetMode Mode
  | FileUpload upload_env nat "File option"

fun step :: "system \<Rightarrow> event \<Rightarrow> system" where
  "step s (ToggleRecording env now) = toggleRecording env now s"
| "step s Open = run_hook 0 onopen s"
| "step s (Message message now) = run_hook now (onmessage message) s"
| "step s (ConnectionError e_message) = run_hook 0 (onerror e_message) s"
| "step s (SetMode m) = s\<lparr>app := setMode m (app s)\<rparr>"
| "step s (FileUpload env now file_opt) = s\<lparr>app := handleFileUpload env now file_opt (app s)\<rparr>"

definition run :: "system \<Rightarrow> event list \<Rightarrow> system" where
  "run s events = foldl step s events"

section \<open>Example inputs\<close>

text \<open>
  Concrete messages, environments and states on which the theorems below are
  instantiated: server messages (one of them with a transcription object that has no
  text), an environment in which \<open>start\<close> succeeds and the live session it leads to once
  the connection opened and a first fragment arrived, an environment in which the
  promise of the connection rejects, a run in which a session follows one that ended in
  a connection error, a file with an upload environment, a component that already shows
  one record, and a few audio samples.
\<close>

definition example_hello :: LiveServerMessage where
  "example_hello =
     \<lparr>serverContent = Some \<lparr>inputTranscription = Some \<lparr>transcription_text = Some (js ''hello'')\<rparr>, turnComplete = None\<rparr>\<rparr>"

definition example_world_done :: LiveServerMessage where
  "example_world_done =
     \<lparr>serverContent =
        Some \<lparr>inputTranscription = Some \<lparr>transcription_text = Some (js ''world'')\<rparr>, turnComplete = Some True\<rparr>\<rparr>"

definition example_again :: LiveServerMessage where
  "example_again =
     \<lparr>serverContent =
        Some \<lparr>inputTranscription = Some \<lparr>transcription_text = Some (js ''again'')\<rparr>, turnComplete = Some False\<rparr>\<rparr>"

definition example_env :: start_env where
  "example_env =
     \<lparr>API_KEY = Some (js ''key''), getUserMedia = Resolved (MediaStream [0, 1]),
      newAudioContext = None, connect = Resolved (LiveSession False)\<rparr>"

definition example_live :: hook where
  "example_live = onmessage example_hello (onopen (start example_env useGeminiLive))"

definition example_unreachable :: start_env where
  "example_unreachable = example_env\<lparr>connect := Rejected (Error (js ''handshake failed''))\<rparr>"

definition example_textless :: LiveServerMessage where
  "example_textless =
     \<lparr>serverContent =
        Some \<lparr>inputTranscription = Some \<lparr>transcription_text = None\<rparr>, turnComplete = None\<rparr>\<rparr>"

definition example_restart :: "event list" where
  "example_restart =
     [ToggleRecording example_env 10, Open, Message example_hello 20,
      ConnectionError (js ''lost''),
      ToggleRecording example_env 30, Open, Message example_again 40]"

definition example_blank_done :: LiveServerMessage where
  "example_blank_done =
     \<lparr>serverContent = Some \<lparr>inputTranscription = Some \<lparr>transcription_text = Some (js '' '')\<rparr>, turnComplete = Some True\<rparr>\<rparr>"

definition example_file :: File where
  "example_file = \<lparr>name = js ''memo.wav'', mime = js ''audio/wav''\<rparr>"

definition example_upload :: upload_env where
  "example_upload =
     \<lparr>API_KEY = Some (js ''key''), toBase64 = Resolved (js ''UklGRg==''),
      generateContent = Resolved (Some (js ''good morning''))\<rparr>"

definition example_record :: Transcription where
  "example_record =
     \<lparr>id_field = 1, text_field = js ''earlier'', from_field = js ''Live Recording''\<rparr>"

definition example_app :: App where
  "example_app =
     App_initial\<lparr>transcripts := [example_record], mode := FileMode,
       fileInputRef := Some (js ''memo.wav'')\<rparr>"

definition example_system :: system where
  "example_system = \<lparr>app = example_app, live = example_live\<rparr>"

definition example_samples :: "number list" where
  "example_samples =
     [Finite 1, Finite (- 1), Finite (1 / 2), Finite (- (3 / 65536)), NaN, PosInfinity, Finite 0]"

section \<open>Properties of the live hook\<close>

subsection \<open>Basic facts\<close>

lemma perform_fields:
  "isRecording (perform e h) = isRecording h"
  "isInitializing (perform e h) = isInitializing h"
  "sessionPromiseRef (perform e h) = sessionPromiseRef h"
  "mediaStreamRef (perform e h) = mediaStreamRef h"
  "audioContextRef (perform e h) = audioContextRef h"
  "scriptProcessorRef (perform e h) = scriptProcessorRef h"
  "currentInputTranscriptionRef (perform e h) = currentInputTranscriptionRef h"
  by (simp_all add: perform_def)

lemma trace_perform: "trace (perform e h) = trace h @ [stamp h e]"
  by (simp add: perform_def stamp_def)

lemma emitted_append: "trace h' = trace h @ cs \<Longrightarrow> emitted h h' = map effect cs"
  by (simp add: emitted_def)

lemma emitted_self: "emitted h h = []"
  by (simp add: emitted_def)

lemma foldl_TrackStop:
  "foldl (\<lambda>h track. perform (TrackStop track) h) h ts =
     h\<lparr>trace := trace h @ map (\<lambda>t. stamp h (TrackStop t)) ts\<rparr>"
  by (induction ts arbitrary: h) (simp_all add: perform_def stamp_def)

lemma stopAudioProcessing_eq:
  "stopAudioProcessing h =
     h\<lparr>mediaStreamRef := None, scriptProcessorRef := None,
       audioContextRef := (case audioContextRef h of
                             Some ctx \<Rightarrow> if state ctx \<noteq> closed then None else Some ctx
                           | None \<Rightarrow> None),
       trace := trace h @ map (stamp h) (release_effects h)\<rparr>"
  unfolding stopAudioProcessing_def foldl_TrackStop
  by (cases "mediaStreamRef h"; cases "scriptProcessorRef h"; cases "audioContextRef h")
     (simp_all add: release_effects_def perform_def stamp_def Let_def)

lemma effect_stamp: "map (effect \<circ> stamp h) es = es"
  by (induction es) (simp_all add: stamp_def)

lemma effect_stamp1: "effect (stamp h e) = e"
  by (simp add: stamp_def)

lemma stamp_cong:
  "currentInputTranscriptionRef h' = currentInputTranscriptionRef h \<Longrightarrow> stamp h' = stamp h"
  by (simp add: stamp_def fun_eq_iff)

lemma stamp_isInitializing: "stamp (h\<lparr>isInitializing := b\<rparr>) = stamp h"
  by (simp add: stamp_def fun_eq_iff)

subsection \<open>The message handler\<close>

lemma onmessage_eq:
  "onmessage m h =
     h\<lparr>currentInputTranscriptionRef :=
         (if message_turnComplete m then []
          else currentInputTranscriptionRef h @ message_text m),
       trace := trace h @
         (case message_inputTranscription m of
            Some t \<Rightarrow>
              [\<lparr>effect = OnTranscriptionUpdate (currentInputTranscriptionRef h @ message_text m),
                buffer_at_call = currentInputTranscriptionRef h @ message_text m\<rparr>]
          | None \<Rightarrow> []) @
         (if message_turnComplete m
          then [\<lparr>effect = OnTranscriptionComplete (currentInputTranscriptionRef h @ message_text m),
                  buffer_at_call = []\<rparr>]
          else [])\<rparr>"
  by (cases "message_inputTranscription m")
     (simp_all add: onmessage_def message_text_def ToString_def perform_def Let_def)

lemma onmessages_snoc: "onmessages (ms @ [m]) h = onmessage m (onmessages ms h)"
  by (simp add: onmessages_def)

lemma fragments_snoc:
  "fragments_since_turnComplete (ms @ [m]) =
     (if message_turnComplete m then [] else fragments_since_turnComplete ms @ message_text m)"
  by (simp add: fragments_since_turnComplete_def)

text \<open>
  The buffer after any sequence of messages, from any starting content: what the buffer
  held before the first message stays in front until the first turn-complete signal.
\<close>

lemma buffer_onmessages:
  "currentInputTranscriptionRef (onmessages ms h) =
     (if list_ex message_turnComplete ms then [] else currentInputTranscriptionRef h) @
     fragments_since_turnComplete ms"
proof (induction ms rule: rev_induct)
  case Nil
  show ?case by (simp add: onmessages_def fragments_since_turnComplete_def)
next
  case (snoc m ms)
  show ?case
    by (simp add: onmessages_snoc fragments_snoc onmessage_eq snoc.IH)
qed

text \<open>
  From an empty buffer, the buffer after any sequence of messages is the concatenation
  of what the messages received since the last turn-complete signal made the handler
  append, and a further message calls \<open>onTranscriptionUpdate\<close> once if it has a
  transcription object, with the buffer extended by what it appends.
\<close>

lemma buffer_accumulates_from_empty:
  "currentInputTranscriptionRef h = [] \<Longrightarrow>
     currentInputTranscriptionRef (onmessages messages h) =
       fragments_since_turnComplete messages \<and>
     emitted (onmessages messages h) (onmessage m (onmessages messages h)) =
       (case message_inputTranscription m of
          Some t \<Rightarrow>
            [OnTranscriptionUpdate (fragments_since_turnComplete messages @ message_text m)]
        | None \<Rightarrow> []) @
       (if message_turnComplete m
        then [OnTranscriptionComplete (fragments_since_turnComplete messages @ message_text m)]
        else [])"
  by (cases "message_inputTranscription m")
     (simp_all add: buffer_onmessages onmessage_eq emitted_def)

text \<open>
  Claim C2. When a message whose \<open>turnComplete\<close> is set is processed,
  \<open>onTranscriptionComplete\<close> is called exactly once, with the whole accumulated text (the
  buffer, extended by the fragment of this message if it has one); at the moment of that
  call the buffer is already empty, it is empty afterwards, and the next message starts
  from the empty buffer.
\<close>

theorem turnComplete_flushes_once:
  "message_turnComplete m \<Longrightarrow>
     filter (\<lambda>c. is_OnTranscriptionComplete (effect c))
       (drop (length (trace h)) (trace (onmessage m h))) =
       [\<lparr>effect = OnTranscriptionComplete (currentInputTranscriptionRef h @ message_text m),
         buffer_at_call = []\<rparr>] \<and>
     currentInputTranscriptionRef (onmessage m h) = [] \<and>
     currentInputTranscriptionRef (onmessage m' (onmessage m h)) =
       (if message_turnComplete m' then [] else message_text m')"
  by (cases "message_inputTranscription m") (simp_all add: onmessage_eq)

theorem turnComplete_flushes_once_witness:
  "message_turnComplete example_world_done \<and>
   filter (\<lambda>c. is_OnTranscriptionComplete (effect c))
     (drop (length (trace (onmessage example_hello useGeminiLive)))
        (trace (onmessage example_world_done (onmessage example_hello useGeminiLive)))) =
     [\<lparr>effect = OnTranscriptionComplete (js ''helloworld''), buffer_at_call = []\<rparr>] \<and>
   currentInputTranscriptionRef
     (onmessage example_world_done (onmessage example_hello useGeminiLive)) = [] \<and>
   currentInputTranscriptionRef
     (onmessage example_again
        (onmessage example_world_done (onmessage example_hello useGeminiLive))) = js ''again''"
  using turnComplete_flushes_once
    [of example_world_done "onmessage example_hello useGeminiLive" example_again]
  by (simp add: onmessage_eq useGeminiLive_def message_text_def ToString_def
      message_inputTranscription_def message_turnComplete_def example_hello_def
      example_world_done_def example_again_def js_def)

subsection \<open>Stopping a session\<close>

lemma stop_try_eq:
  "stop_try p h = h\<lparr>trace := trace h @ map (stamp h) (stop_try_effects p)\<rparr>"
  by (cases p)
     (simp_all add: stop_try_def stop_try_effects_def stop_catch_def perform_def stamp_def Let_def)

lemma stop_finally_eq:
  "stop_finally h =
     h\<lparr>sessionPromiseRef := None, mediaStreamRef := None, scriptProcessorRef := None,
       audioContextRef := (case audioContextRef h of
                             Some ctx \<Rightarrow> if state ctx \<noteq> closed then None else Some ctx
                           | None \<Rightarrow> None),
       currentInputTranscriptionRef := [],
       trace := trace h @ map (stamp h)
         (release_effects h @
          (if currentInputTranscriptionRef h \<noteq> []
           then [OnTranscriptionComplete (currentInputTranscriptionRef h)] else []))\<rparr>"
  by (simp add: stop_finally_def stopAudioProcessing_eq truthy_def perform_def Let_def
      release_effects_def stamp_def)

lemma stop_eq:
  "sessionPromiseRef h = Some p \<Longrightarrow>
   stop h =
     h\<lparr>isRecording := False, sessionPromiseRef := None, mediaStreamRef := None,
       scriptProcessorRef := None,
       audioContextRef := (case audioContextRef h of
                             Some ctx \<Rightarrow> if state ctx \<noteq> closed then None else Some ctx
                           | None \<Rightarrow> None),
       currentInputTranscriptionRef := [],
       trace := trace h @ map (stamp h)
         (stop_try_effects p @ release_effects h @
          (if currentInputTranscriptionRef h \<noteq> []
           then [OnTranscriptionComplete (currentInputTranscriptionRef h)] else []))\<rparr>"
  by (simp add: stop_def stop_try_eq stop_finally_eq release_effects_def stamp_def)

lemma emitted_stop:
  "sessionPromiseRef h = Some p \<Longrightarrow>
   emitted h (stop h) =
     stop_try_effects p @ release_effects h @
     (if currentInputTranscriptionRef h \<noteq> []
      then [OnTranscriptionComplete (currentInputTranscriptionRef h)] else [])"
  by (simp add: stop_eq emitted_def effect_stamp)

lemma no_complete_in_try: "filter is_OnTranscriptionComplete (stop_try_effects p) = []"
  by (cases p) (simp_all add: stop_try_effects_def)

lemma no_complete_in_release: "filter is_OnTranscriptionComplete (release_effects h) = []"
  by (cases "mediaStreamRef h"; cases "scriptProcessorRef h"; cases "audioContextRef h")
     (simp_all add: release_effects_def filter_empty_conv)

lemma example_live_eq:
  "example_live =
     \<lparr>isRecording = True, isInitializing = False,
      sessionPromiseRef = Some (Resolved (LiveSession False)),
      mediaStreamRef = Some (MediaStream [0, 1]),
      audioContextRef = Some \<lparr>state = running, sampleRate = 16000\<rparr>,
      scriptProcessorRef = Some (ScriptProcessorNode 4096 1 1),
      currentInputTranscriptionRef = js ''hello'',
      trace = [\<lparr>effect = GetUserMedia, buffer_at_call = []\<rparr>,
               \<lparr>effect = NewAudioContext, buffer_at_call = []\<rparr>,
               \<lparr>effect = LiveConnect, buffer_at_call = []\<rparr>,
               \<lparr>effect = SourceConnect, buffer_at_call = []\<rparr>,
               \<lparr>effect = ScriptProcessorConnect, buffer_at_call = []\<rparr>,
               \<lparr>effect = OnTranscriptionUpdate (js ''hello''), buffer_at_call = js ''hello''\<rparr>]\<rparr>"
  by (simp add: example_live_def example_env_def start_def start_try_def no_API_KEY_def
      truthy_def onopen_def onmessage_eq perform_def useGeminiLive_def Let_def
      example_hello_def message_inputTranscription_def message_turnComplete_def
      message_text_def ToString_def js_def)

text \<open>
  Claim C7. Stopping a live session (the session promise resolved, the stream, the script
  processor and an audio context that is not closed are held) makes exactly these calls, in
  this order: \<open>close()\<close> on the session (followed by the error report if \<open>close()\<close> throws),
  \<open>stop()\<close> on every track of the stream, \<open>disconnect()\<close> on the script processor,
  \<open>close()\<close> on the audio context, and the flush of a non-empty buffer to
  \<open>onTranscriptionComplete\<close>. Afterwards all four refs are null and \<open>isRecording\<close> is
  false; \<open>isInitializing\<close> is untouched. Nothing is retried, awaited from the server or
  sent to it.
\<close>

theorem stop_tears_down_live_session:
  "sessionPromiseRef h = Some (Resolved session) \<Longrightarrow> mediaStreamRef h = Some ms \<Longrightarrow>
   scriptProcessorRef h = Some sp \<Longrightarrow> audioContextRef h = Some ctx \<Longrightarrow>
   state ctx \<noteq> closed \<Longrightarrow>
     emitted h (stop h) =
       [SessionClose] @
       (if close_throws session
        then [ConsoleError (js ''Error closing session:''),
              OnError (js ''Failed to close the connection properly.'')]
        else []) @
       map TrackStop (getTracks ms) @ [ScriptProcessorDisconnect, AudioContextClose] @
       (if currentInputTranscriptionRef h \<noteq> []
        then [OnTranscriptionComplete (currentInputTranscriptionRef h)] else []) \<and>
     sessionPromiseRef (stop h) = None \<and> mediaStreamRef (stop h) = None \<and>
     scriptProcessorRef (stop h) = None \<and> audioContextRef (stop h) = None \<and>
     isRecording (stop h) = False \<and> isInitializing (stop h) = isInitializing h"
proof -
  assume live: "sessionPromiseRef h = Some (Resolved session)" "mediaStreamRef h = Some ms"
    "scriptProcessorRef h = Some sp" "audioContextRef h = Some ctx" "state ctx \<noteq> closed"
  have refs: "sessionPromiseRef (stop h) = None \<and> mediaStreamRef (stop h) = None \<and>
     scriptProcessorRef (stop h) = None \<and> audioContextRef (stop h) = None \<and>
     isRecording (stop h) = False \<and> isInitializing (stop h) = isInitializing h"
    using live by (simp add: stop_eq)
  have "emitted h (stop h) =
       [SessionClose] @
       (if close_throws session
        then [ConsoleError (js ''Error closing session:''),
              OnError (js ''Failed to close the connection properly.'')]
        else []) @
       map TrackStop (getTracks ms) @ [ScriptProcessorDisconnect, AudioContextClose] @
       (if currentInputTranscriptionRef h \<noteq> []
        then [OnTranscriptionComplete (currentInputTranscriptionRef h)] else [])"
    using live by (simp add: emitted_stop stop_try_effects_def release_effects_def)
  with refs show ?thesis by blast
qed

theorem stop_tears_down_live_session_witness:
  "sessionPromiseRef example_live = Some (Resolved (LiveSession False)) \<and>
   mediaStreamRef example_live = Some (MediaStream [0, 1]) \<and>
   scriptProcessorRef example_live = Some (ScriptProcessorNode 4096 1 1) \<and>
   audioContextRef example_live = Some \<lparr>state = running, sampleRate = 16000\<rparr> \<and>
   state \<lparr>state = running, sampleRate = 16000\<rparr> \<noteq> closed \<and>
   emitted example_live (stop example_live) =
     [SessionClose, TrackStop 0, TrackStop 1, ScriptProcessorDisconnect, AudioContextClose,
      OnTranscriptionComplete (js ''hello'')] \<and>
   sessionPromiseRef (stop example_live) = None \<and> mediaStreamRef (stop example_live) = None \<and>
   scriptProcessorRef (stop example_live) = None \<and> audioContextRef (stop example_live) = None \<and>
   isRecording (stop example_live) = False"
proof -
  have live: "sessionPromiseRef example_live = Some (Resolved (LiveSession False))"
    "mediaStreamRef example_live = Some (MediaStream [0, 1])"
    "scriptProcessorRef example_live = Some (ScriptProcessorNode 4096 1 1)"
    "audioContextRef example_live = Some \<lparr>state = running, sampleRate = 16000\<rparr>"
    "state \<lparr>state = running, sampleRate = 16000\<rparr> \<noteq> closed"
    by (simp_all add: example_live_eq)
  have cur: "currentInputTranscriptionRef example_live = js ''hello''"
    by (simp add: example_live_eq)
  show ?thesis
    using stop_tears_down_live_session [OF live] live
    by (simp add: cur js_def)
qed

text \<open>
  Claim C9. When \<open>stop\<close> runs on a started session, however the session promise settles
  and whether or not \<open>close()\<close> throws: if the buffer is not empty,
  \<open>onTranscriptionComplete\<close> is called once, with the buffered text; if it is empty, it is
  not called; and the buffer is empty afterwards.
\<close>

theorem stop_flushes_buffer:
  "sessionPromiseRef h = Some p \<Longrightarrow>
     filter is_OnTranscriptionComplete (emitted h (stop h)) =
       (if currentInputTranscriptionRef h \<noteq> []
        then [OnTranscriptionComplete (currentInputTranscriptionRef h)] else []) \<and>
     currentInputTranscriptionRef (stop h) = []"
proof -
  assume p: "sessionPromiseRef h = Some p"
  have "currentInputTranscriptionRef (stop h) = []"
    by (simp add: stop_eq [OF p])
  then show ?thesis
    by (simp add: emitted_stop [OF p] no_complete_in_try no_complete_in_release)
qed

theorem stop_flushes_buffer_witness:
  "sessionPromiseRef (example_live\<lparr>sessionPromiseRef := Some (Rejected NonError)\<rparr>) =
     Some (Rejected NonError) \<and>
   filter is_OnTranscriptionComplete
     (emitted (example_live\<lparr>sessionPromiseRef := Some (Rejected NonError)\<rparr>)
        (stop (example_live\<lparr>sessionPromiseRef := Some (Rejected NonError)\<rparr>))) =
     [OnTranscriptionComplete (js ''hello'')] \<and>
   currentInputTranscriptionRef
     (stop (example_live\<lparr>sessionPromiseRef := Some (Rejected NonError)\<rparr>)) = []"
  using stop_flushes_buffer
    [of "example_live\<lparr>sessionPromiseRef := Some (Rejected NonError)\<rparr>" "Rejected NonError"]
  by (simp add: example_live_eq js_def)

subsection \<open>Failures of \<open>start\<close> and of the connection\<close>

lemma start_catch_eq:
  "start_catch err h =
     h\<lparr>isInitializing := False, isRecording := False, mediaStreamRef := None,
       scriptProcessorRef := None,
       audioContextRef := (case audioContextRef h of
                             Some ctx \<Rightarrow> if state ctx \<noteq> closed then None else Some ctx
                           | None \<Rightarrow> None),
       trace := trace h @ map (stamp h)
         ([ConsoleError (js ''Failed to start recording:''),
           OnError (thrown_message ''An unknown error occurred.'' err)] @ release_effects h)\<rparr>"
  by (simp add: start_catch_def stopAudioProcessing_eq perform_def Let_def release_effects_def
      stamp_def)

lemma onerror_eq:
  "onerror m h =
     h\<lparr>isRecording := False, isInitializing := False, mediaStreamRef := None,
       scriptProcessorRef := None,
       audioContextRef := (case audioContextRef h of
                             Some ctx \<Rightarrow> if state ctx \<noteq> closed then None else Some ctx
                           | None \<Rightarrow> None),
       trace := trace h @ map (stamp h)
         ([ConsoleError (js ''Gemini Live API Error:''),
           OnError (js ''Connection error: '' @ m)] @ release_effects h)\<rparr>"
  by (simp add: onerror_def stopAudioProcessing_eq perform_def Let_def release_effects_def
      stamp_def)

lemma start_try_cases:
  assumes "start_try env h = Inl (err, hf)"
  obtains (key) "no_API_KEY env" "err = Error (js ''API_KEY environment variable not set.'')"
      "hf = h"
    | (media) "getUserMedia env = Rejected err" "hf = perform GetUserMedia h"
    | (ctx) ms where "getUserMedia env = Resolved ms" "newAudioContext env = Some err"
      "hf = perform NewAudioContext ((perform GetUserMedia h)\<lparr>mediaStreamRef := Some ms\<rparr>)"
  using assms
  by (auto simp: start_try_def Let_def split: if_splits promise.splits option.splits)

lemma start_try_Inl:
  assumes "start_try env h = Inl (err, hf)"
  shows "\<exists>pre. trace hf = trace h @ map (stamp h) pre \<and>
           currentInputTranscriptionRef hf = currentInputTranscriptionRef h \<and>
           (pre = [] \<or> pre = [GetUserMedia] \<or> pre = [GetUserMedia, NewAudioContext])"
  using assms
proof (cases rule: start_try_cases)
  case key
  then show ?thesis by simp
next
  case media
  have "trace hf = trace h @ map (stamp h) [GetUserMedia]"
    by (simp add: media perform_def stamp_def)
  moreover have "currentInputTranscriptionRef hf = currentInputTranscriptionRef h"
    by (simp add: media perform_def)
  ultimately show ?thesis by blast
next
  case (ctx ms)
  have "trace hf = trace h @ map (stamp h) [GetUserMedia, NewAudioContext]"
    by (simp add: ctx perform_def stamp_def)
  moreover have "currentInputTranscriptionRef hf = currentInputTranscriptionRef h"
    by (simp add: ctx perform_def)
  ultimately show ?thesis by blast
qed

lemma start_try_no_key:
  "no_API_KEY env \<Longrightarrow>
   start_try env h = Inl (Error (js ''API_KEY environment variable not set.''), h)"
  by (simp add: start_try_def)

lemma no_error_in_release: "filter is_OnError (release_effects h) = []"
  by (cases "mediaStreamRef h"; cases "scriptProcessorRef h"; cases "audioContextRef h")
     (simp_all add: release_effects_def filter_empty_conv)

lemma acquisitions_not_in_release:
  "GetUserMedia \<notin> set (release_effects h)" "NewAudioContext \<notin> set (release_effects h)"
  "LiveConnect \<notin> set (release_effects h)"
  by (cases "mediaStreamRef h"; cases "scriptProcessorRef h"; cases "audioContextRef h";
      auto simp: release_effects_def)+

lemma start_failure:
  assumes "start_try env (h\<lparr>isInitializing := True\<rparr>) = Inl (err, hf)"
  shows "emitted h (start env h) =
           emitted h hf @
           [ConsoleError (js ''Failed to start recording:''),
            OnError (thrown_message ''An unknown error occurred.'' err)] @ release_effects hf"
    and "filter is_OnError (emitted h (start env h)) =
           [OnError (thrown_message ''An unknown error occurred.'' err)]"
    and "isRecording (start env h) = False" and "isInitializing (start env h) = False"
    and "audio_released (start env h)"
    and "count_list (emitted h (start env h)) GetUserMedia \<le> 1"
    and "count_list (emitted h (start env h)) NewAudioContext \<le> 1"
    and "LiveConnect \<notin> set (emitted h (start env h))"
proof -
  obtain pre where tr: "trace hf = trace h @ map (stamp h) pre"
    and cur: "currentInputTranscriptionRef hf = currentInputTranscriptionRef h"
    and pre: "pre = [] \<or> pre = [GetUserMedia] \<or> pre = [GetUserMedia, NewAudioContext]"
    using start_try_Inl [OF assms] by (auto simp: stamp_isInitializing)
  have st: "start env h = start_catch err hf"
    by (simp add: start_def assms)
  have e1: "emitted h hf = pre"
    by (simp add: emitted_def tr effect_stamp)
  have tr2: "trace (start env h) = trace h @ map (stamp h)
      (pre @ [ConsoleError (js ''Failed to start recording:''),
              OnError (thrown_message ''An unknown error occurred.'' err)] @ release_effects hf)"
    by (simp add: st start_catch_eq tr stamp_cong [OF cur])
  show em: "emitted h (start env h) =
           emitted h hf @
           [ConsoleError (js ''Failed to start recording:''),
            OnError (thrown_message ''An unknown error occurred.'' err)] @ release_effects hf"
    unfolding e1 by (simp add: emitted_def tr2 effect_stamp effect_stamp1)
  show "filter is_OnError (emitted h (start env h)) =
           [OnError (thrown_message ''An unknown error occurred.'' err)]"
    unfolding em e1 using pre by (auto simp: no_error_in_release)
  show "isRecording (start env h) = False" "isInitializing (start env h) = False"
    by (simp_all add: st start_catch_eq)
  show "audio_released (start env h)"
    by (cases "audioContextRef hf") (simp_all add: st start_catch_eq audio_released_def)
  show "count_list (emitted h (start env h)) GetUserMedia \<le> 1"
    unfolding em e1 using pre acquisitions_not_in_release(1) [of hf]
    by (auto simp: count_list_0_iff)
  show "count_list (emitted h (start env h)) NewAudioContext \<le> 1"
    unfolding em e1 using pre acquisitions_not_in_release(2) [of hf]
    by (auto simp: count_list_0_iff)
  show "LiveConnect \<notin> set (emitted h (start env h))"
    unfolding em e1 using pre acquisitions_not_in_release(3) [of hf] by auto
qed

text \<open>
  When the \<open>try\<close> block completes, \<open>start\<close> has stored the promise of the connection
  however it settles, has called no prop, and leaves \<open>isInitializing\<close> true: the session
  callbacks \<open>onopen\<close> and \<open>onerror\<close> are what ends the initialisation.
\<close>

lemma start_completed:
  assumes "start_try env (h\<lparr>isInitializing := True\<rparr>) = Inr h'"
  shows "start env h = h'" and "sessionPromiseRef h' = Some (connect env)"
    and "isInitializing h' = True"
    and "emitted h h' = [GetUserMedia, NewAudioContext, LiveConnect]"
proof -
  show "start env h = h'"
    by (simp add: start_def assms)
  from assms obtain ms where h': "h' =
      (perform LiveConnect
        ((perform NewAudioContext
           ((perform GetUserMedia (h\<lparr>isInitializing := True\<rparr>))\<lparr>mediaStreamRef := Some ms\<rparr>))
         \<lparr>audioContextRef := Some \<lparr>state = running, sampleRate = 16000\<rparr>\<rparr>))
      \<lparr>sessionPromiseRef := Some (connect env)\<rparr>"
    by (auto simp: start_try_def Let_def split: if_splits promise.splits option.splits)
  show "sessionPromiseRef h' = Some (connect env)" "isInitializing h' = True"
    by (simp_all add: h' perform_def)
  show "emitted h h' = [GetUserMedia, NewAudioContext, LiveConnect]"
    by (simp add: h' perform_def emitted_def)
qed

lemma onerror_failure:
  shows "emitted h (onerror m h) =
           [ConsoleError (js ''Gemini Live API Error:''),
            OnError (js ''Connection error: '' @ m)] @ release_effects h"
    and "filter is_OnError (emitted h (onerror m h)) = [OnError (js ''Connection error: '' @ m)]"
    and "isRecording (onerror m h) = False" and "isInitializing (onerror m h) = False"
    and "audio_released (onerror m h)"
proof -
  show em: "emitted h (onerror m h) =
           [ConsoleError (js ''Gemini Live API Error:''),
            OnError (js ''Connection error: '' @ m)] @ release_effects h"
    by (simp add: emitted_def onerror_eq effect_stamp effect_stamp1)
  show "filter is_OnError (emitted h (onerror m h)) = [OnError (js ''Connection error: '' @ m)]"
    unfolding em by (simp add: no_error_in_release)
  show "isRecording (onerror m h) = False" "isInitializing (onerror m h) = False"
    by (simp_all add: onerror_eq)
  show "audio_released (onerror m h)"
    by (cases "audioContextRef h") (simp_all add: onerror_eq audio_released_def)
qed

subsection \<open>Stopping without a session\<close>

text \<open>
  Claim C8. When no session has been started (\<open>sessionPromiseRef\<close> is null), \<open>stop\<close>
  returns at once: the whole state of the hook is unchanged, that is \<open>isRecording\<close>,
  \<open>isInitializing\<close>, the audio refs and the transcription buffer keep their values and
  no callback or device call is added to the trace.
\<close>

theorem stop_without_session_is_noop:
  "sessionPromiseRef h = None \<Longrightarrow> stop h = h"
  by (simp add: stop_def)

theorem stop_without_session_is_noop_witness:
  "sessionPromiseRef (useGeminiLive\<lparr>mediaStreamRef := Some (MediaStream [0, 1]),
       currentInputTranscriptionRef := js ''hello''\<rparr>) = None \<and>
   stop (useGeminiLive\<lparr>mediaStreamRef := Some (MediaStream [0, 1]),
       currentInputTranscriptionRef := js ''hello''\<rparr>) =
     useGeminiLive\<lparr>mediaStreamRef := Some (MediaStream [0, 1]),
       currentInputTranscriptionRef := js ''hello''\<rparr>"
  using stop_without_session_is_noop
    [of "useGeminiLive\<lparr>mediaStreamRef := Some (MediaStream [0, 1]),
       currentInputTranscriptionRef := js ''hello''\<rparr>"]
  by (simp add: useGeminiLive_def)

section \<open>Properties of the PCM encoding\<close>

lemma loop_eq:
  "i \<le> l \<Longrightarrow> length int16 = l \<Longrightarrow> length samples = l \<Longrightarrow>
   createPcmBlob_loop i l samples int16 =
     take i int16 @ map (\<lambda>x. ToInt16 (times_32768 x)) (drop i samples)"
proof (induction i l samples int16 rule: createPcmBlob_loop.induct)
  case (1 i l samples int16)
  show ?case
  proof (cases "i < l")
    case True
    have "createPcmBlob_loop i l samples int16 =
        createPcmBlob_loop (i + 1) l samples (int16[i := ToInt16 (times_32768 (samples ! i))])"
      using True by (subst createPcmBlob_loop.simps) simp
    also have "\<dots> = take (i + 1) (int16[i := ToInt16 (times_32768 (samples ! i))]) @
        map (\<lambda>x. ToInt16 (times_32768 x)) (drop (i + 1) samples)"
      using True "1.prems" by (intro "1.IH") simp_all
    also have "take (i + 1) (int16[i := ToInt16 (times_32768 (samples ! i))]) =
        take i int16 @ [ToInt16 (times_32768 (samples ! i))]"
      using True "1.prems" by (simp add: take_Suc_conv_app_nth)
    also have "(take i int16 @ [ToInt16 (times_32768 (samples ! i))]) @
        map (\<lambda>x. ToInt16 (times_32768 x)) (drop (i + 1) samples) =
        take i int16 @ map (\<lambda>x. ToInt16 (times_32768 x)) (drop i samples)"
    proof -
      have "drop i samples = samples ! i # drop (i + 1) samples"
        using True "1.prems" by (simp add: Cons_nth_drop_Suc)
      then show ?thesis by simp
    qed
    finally show ?thesis .
  next
    case False
    then show ?thesis using "1.prems" by (subst createPcmBlob_loop.simps) simp
  qed
qed

lemma createPcmBlob_int16_eq:
  "createPcmBlob_int16 samples = map (\<lambda>x. ToInt16 (times_32768 x)) samples"
  by (simp add: createPcmBlob_int16_def Let_def loop_eq)



lemma truncate_examples:
  "truncate_towards_zero 32768 = 32768" "truncate_towards_zero (- 32768) = - 32768" "truncate_towards_zero 16384 = 16384"
  "truncate_towards_zero (- (3 / 2)) = - 1" "truncate_towards_zero 0 = 0"
  by (simp_all add: truncate_towards_zero_def ceiling_unique)

lemma example_pcm:
  "map sint (createPcmBlob_int16 example_samples) = [- 32768, - 32768, 16384, - 1, 0, 0, 0]"
  by (simp add: createPcmBlob_int16_eq example_samples_def ToInt16_def times_32768_def
      truncate_examples)




lemma example_bytes: "Uint8Array_of_buffer [32768, 16384, 65535] = [0, 128, 0, 64, 255, 255]"
  by (simp add: Uint8Array_of_buffer_def drop_bit_eq_div)


section \<open>Properties of the application\<close>

subsection \<open>The file upload\<close>

lemma handleFileUpload_try_cases:
  assumes "handleFileUpload_try env now file a = Inl (err, af)"
  obtains (key) "no_API_KEY env" "err = Error (js ''API_KEY environment variable not set.'')"
      "af = a"
    | (read) "toBase64 env = Rejected err" "af = a\<lparr>calls := calls a @ [ReadAsDataURL]\<rparr>"
    | (api) "generateContent env = Rejected err"
      "af = a\<lparr>calls := calls a @ [ReadAsDataURL, GenerateContent]\<rparr>"
    | (undefined_text) "generateContent env = Resolved None" "err = trim_of_undefined"
      "af = a\<lparr>calls := calls a @ [ReadAsDataURL, GenerateContent]\<rparr>"
  using assms
  by (auto simp: handleFileUpload_try_def Let_def
      split: if_splits promise.splits option.splits)

lemma handleFileUpload_try_Inl:
  assumes "handleFileUpload_try env now file a = Inl (err, af)"
  shows "\<exists>cs. af = a\<lparr>calls := calls a @ cs\<rparr> \<and>
           (cs = [] \<or> cs = [ReadAsDataURL] \<or> cs = [ReadAsDataURL, GenerateContent])"
  using assms
proof (cases rule: handleFileUpload_try_cases)
  case key
  then have "af = a\<lparr>calls := calls a @ []\<rparr>" by simp
  then show ?thesis by blast
next
  case read
  then show ?thesis by blast
next
  case api
  then show ?thesis by blast
next
  case undefined_text
  then show ?thesis by blast
qed

lemma handleFileUpload_try_Inr:
  assumes "handleFileUpload_try env now file a = Inr a'"
  shows "\<exists>t. generateContent env = Resolved (Some t) \<and>
           a' = a\<lparr>transcripts := transcripts a @
                    (if truthy (trim t)
                     then [\<lparr>id_field = now, text_field = t, from_field = name file\<rparr>] else []),
                  calls := calls a @ [ReadAsDataURL, GenerateContent]\<rparr>"
  using assms
  by (auto simp: handleFileUpload_try_def Let_def
      split: if_splits promise.splits option.splits)

lemma handleFileUpload_finally_eq:
  "handleFileUpload_finally a =
     a\<lparr>isProcessingFile := False, fileInputRef := map_option (\<lambda>v. []) (fileInputRef a)\<rparr>"
  by (cases "fileInputRef a") (simp_all add: handleFileUpload_finally_def Let_def)

lemma handleFileUpload_catch_eq:
  "handleFileUpload_catch err a =
     a\<lparr>error := Some (thrown_message ''An unknown error occurred during file transcription.'' err),
       calls := calls a @ [ConsoleError (js ''File transcription error:'')]\<rparr>"
  by (simp add: handleFileUpload_catch_def Let_def)

lemma handleFileUpload_failure:
  assumes "handleFileUpload_try env now file (a\<lparr>error := None, isProcessingFile := True\<rparr>) =
             Inl (err, af)"
  shows "\<exists>cs. handleFileUpload env now (Some file) a =
           a\<lparr>error := Some (thrown_message
                   ''An unknown error occurred during file transcription.'' err),
             isProcessingFile := False,
             fileInputRef := map_option (\<lambda>v. []) (fileInputRef a),
             calls := calls a @ cs @ [ConsoleError (js ''File transcription error:'')]\<rparr> \<and>
           (cs = [] \<or> cs = [ReadAsDataURL] \<or> cs = [ReadAsDataURL, GenerateContent])"
proof -
  obtain cs where af: "af = a\<lparr>error := None, isProcessingFile := True,
        calls := calls a @ cs\<rparr>"
    and cs: "cs = [] \<or> cs = [ReadAsDataURL] \<or> cs = [ReadAsDataURL, GenerateContent]"
    using handleFileUpload_try_Inl [OF assms] by auto
  have "handleFileUpload env now (Some file) a =
      handleFileUpload_finally (handleFileUpload_catch err af)"
    by (simp add: handleFileUpload_def assms Let_def)
  also have "\<dots> = a\<lparr>error := Some (thrown_message
                   ''An unknown error occurred during file transcription.'' err),
             isProcessingFile := False,
             fileInputRef := map_option (\<lambda>v. []) (fileInputRef a),
             calls := calls a @ cs @ [ConsoleError (js ''File transcription error:'')]\<rparr>"
    by (simp add: af handleFileUpload_finally_eq handleFileUpload_catch_eq)
  finally show ?thesis using cs by blast
qed

lemma handleFileUpload_success:
  assumes "handleFileUpload_try env now file (a\<lparr>error := None, isProcessingFile := True\<rparr>) =
             Inr a'"
  shows "\<exists>t. generateContent env = Resolved (Some t) \<and>
           handleFileUpload env now (Some file) a =
           a\<lparr>transcripts := transcripts a @
                    (if truthy (trim t)
                     then [\<lparr>id_field = now, text_field = t, from_field = name file\<rparr>] else []),
             error := None, isProcessingFile := False,
             fileInputRef := map_option (\<lambda>v. []) (fileInputRef a),
             calls := calls a @ [ReadAsDataURL, GenerateContent]\<rparr>"
proof -
  obtain t where t: "generateContent env = Resolved (Some t)"
    and a': "a' = a\<lparr>transcripts := transcripts a @
                    (if truthy (trim t)
                     then [\<lparr>id_field = now, text_field = t, from_field = name file\<rparr>] else []),
                  error := None, isProcessingFile := True,
                  calls := calls a @ [ReadAsDataURL, GenerateContent]\<rparr>"
    using handleFileUpload_try_Inr [OF assms] by auto
  have "handleFileUpload env now (Some file) a = handleFileUpload_finally a'"
    by (simp add: handleFileUpload_def assms Let_def)
  then show ?thesis using t
    by (simp add: a' handleFileUpload_finally_eq)
qed

lemma handleFileUpload_try_isl:
  "isl (handleFileUpload_try env now file a) \<longleftrightarrow>
     no_API_KEY env \<or> (\<exists>e. toBase64 env = Rejected e) \<or>
     (\<exists>e. generateContent env = Rejected e) \<or> generateContent env = Resolved None"
  by (auto simp: handleFileUpload_try_def Let_def split: promise.splits option.splits)

text \<open>
  Claim C10. When a file was chosen and a step of \<open>handleFileUpload\<close> throws (the API key
  is missing, reading the file fails, the API call fails, or the response has no text),
  the list of transcripts is what it was before the upload. In every outcome, success with
  or without text or error, \<open>isProcessingFile\<close> is false at the end and the value of the
  file input, when one is mounted, is the empty string.
\<close>

theorem handleFileUpload_restores_state:
  "(no_API_KEY env \<or> (\<exists>e. toBase64 env = Rejected e) \<or>
    (\<exists>e. generateContent env = Rejected e) \<or> generateContent env = Resolved None \<longrightarrow>
      transcripts (handleFileUpload env now (Some file) a) = transcripts a) \<and>
   isProcessingFile (handleFileUpload env now (Some file) a) = False \<and>
   fileInputRef (handleFileUpload env now (Some file) a) =
     map_option (\<lambda>v. []) (fileInputRef a)"
proof (cases "handleFileUpload_try env now file (a\<lparr>error := None, isProcessingFile := True\<rparr>)")
  case (Inl p)
  obtain err af where "p = (err, af)" by (cases p)
  with Inl handleFileUpload_failure [of env now "file" a err af] show ?thesis
    by auto
next
  case (Inr a')
  then have "\<not> isl (handleFileUpload_try env now file
      (a\<lparr>error := None, isProcessingFile := True\<rparr>))"
    by simp
  then have ok: "\<not> (no_API_KEY env \<or> (\<exists>e. toBase64 env = Rejected e) \<or>
    (\<exists>e. generateContent env = Rejected e) \<or> generateContent env = Resolved None)"
    by (simp only: handleFileUpload_try_isl not_False_eq_True)
  from Inr handleFileUpload_success [of env now "file" a a'] ok show ?thesis
    by auto
qed

theorem handleFileUpload_restores_state_witness:
  "no_API_KEY (example_upload\<lparr>API_KEY := None\<rparr>) \<and>
   transcripts
     (handleFileUpload (example_upload\<lparr>API_KEY := None\<rparr>) 2 (Some example_file) example_app) =
     [example_record] \<and>
   isProcessingFile
     (handleFileUpload (example_upload\<lparr>API_KEY := None\<rparr>) 2 (Some example_file) example_app) =
     False \<and>
   fileInputRef
     (handleFileUpload (example_upload\<lparr>API_KEY := None\<rparr>) 2 (Some example_file) example_app) =
     Some []"
  using handleFileUpload_restores_state
    [of "example_upload\<lparr>API_KEY := None\<rparr>" 2 example_file example_app]
  by (simp add: no_API_KEY_def example_upload_def example_app_def App_initial_def)

subsection \<open>The list of transcripts\<close>

lemma transcripts_deliver:
  "\<exists>added. transcripts (deliver now a e) = transcripts a @ added"
  by (cases e)
     (simp_all add: handleTranscriptionUpdate_def handleTranscriptionComplete_def
        handleError_def Let_def)

lemma transcripts_foldl_deliver:
  "\<exists>added. transcripts (foldl (deliver now) a es) = transcripts a @ added"
proof (induction es arbitrary: a)
  case Nil
  show ?case by simp
next
  case (Cons e es)
  obtain xs where xs: "transcripts (deliver now a e) = transcripts a @ xs"
    using transcripts_deliver by blast
  obtain ys where "transcripts (foldl (deliver now) (deliver now a e) es) =
      transcripts (deliver now a e) @ ys"
    using Cons.IH by blast
  then have "transcripts (foldl (deliver now) a (e # es)) = transcripts a @ (xs @ ys)"
    by (simp add: xs)
  then show ?case by blast
qed

lemma transcripts_run_hook:
  "\<exists>added. transcripts (app (run_hook now f s)) = transcripts (app s) @ added"
  by (simp add: run_hook_def Let_def transcripts_foldl_deliver)

lemma transcripts_toggleRecording:
  "\<exists>added. transcripts (app (toggleRecording env now s)) = transcripts (app s) @ added"
proof -
  have "\<exists>added. transcripts (app (run_hook now f (s\<lparr>app := (app s)\<lparr>error := None\<rparr>\<rparr>))) =
      transcripts (app (s\<lparr>app := (app s)\<lparr>error := None\<rparr>\<rparr>)) @ added" for f
    by (rule transcripts_run_hook)
  then show ?thesis
    by (simp add: toggleRecording_def Let_def)
qed

lemma transcripts_handleFileUpload:
  "\<exists>added. transcripts (handleFileUpload env now file_opt a) = transcripts a @ added"
proof (cases file_opt)
  case None
  then show ?thesis by (simp add: handleFileUpload_def)
next
  case (Some f)
  show ?thesis
  proof (cases "handleFileUpload_try env now f (a\<lparr>error := None, isProcessingFile := True\<rparr>)")
    case (Inl p)
    obtain err af where "p = (err, af)" by (cases p)
    with Inl handleFileUpload_failure [of env now f a err af] Some show ?thesis
      by auto
  next
    case (Inr a')
    with handleFileUpload_success [of env now f a a'] Some show ?thesis
      by auto
  qed
qed

lemma transcripts_step:
  "\<exists>added. transcripts (app (step s e)) = transcripts (app s) @ added"
  by (cases e)
     (simp_all add: transcripts_toggleRecording transcripts_run_hook
        transcripts_handleFileUpload setMode_def)

text \<open>
  Claim C4. Whatever events follow (a toggle that starts or stops a session, the opening
  of the connection, a server message, a connection error, a mode switch, a file upload,
  in any number and order), the list of transcripts afterwards is the list before with
  records added at its end: every record already stored keeps its place, its identifier,
  its text and its source label, and none is removed.
\<close>

theorem transcripts_only_grow:
  "\<exists>added. transcripts (app (run s events)) = transcripts (app s) @ added"
proof (induction events rule: rev_induct)
  case Nil
  show ?case by (simp add: run_def)
next
  case (snoc e events)
  obtain xs where xs: "transcripts (app (run s events)) = transcripts (app s) @ xs"
    using snoc.IH by blast
  obtain ys where "transcripts (app (step (run s events) e)) =
      transcripts (app (run s events)) @ ys"
    using transcripts_step by blast
  moreover have "run s (events @ [e]) = step (run s events) e"
    by (simp add: run_def)
  ultimately have "transcripts (app (run s (events @ [e]))) = transcripts (app s) @ (xs @ ys)"
    by (simp add: xs)
  then show ?case by blast
qed

text \<open>The two places that add a record, at the level of the handlers.\<close>

lemma handlers_append_when_text_not_blank:
  "transcripts (handleTranscriptionComplete now text a) =
     transcripts a @
     (if truthy (trim text)
      then [\<lparr>id_field = now, text_field = text, from_field = js ''Live Recording''\<rparr>]
      else [])"
  "\<not> no_API_KEY env \<Longrightarrow> toBase64 env = Resolved base64Data \<Longrightarrow>
   generateContent env = Resolved (Some transcriptionText) \<Longrightarrow>
      transcripts (handleFileUpload env now (Some file) a) =
        transcripts a @
        (if truthy (trim transcriptionText)
         then [\<lparr>id_field = now, text_field = transcriptionText, from_field = name file\<rparr>]
         else [])"
  by (simp_all add: handleTranscriptionComplete_def handleFileUpload_def
      handleFileUpload_try_def handleFileUpload_finally_eq Let_def)

lemma transcripts_deliver_other:
  "\<not> is_OnTranscriptionComplete e \<Longrightarrow> transcripts (deliver now a e) = transcripts a"
  by (cases e) (simp_all add: handleTranscriptionUpdate_def handleError_def)

lemma transcripts_foldl_deliver_none:
  "filter is_OnTranscriptionComplete es = [] \<Longrightarrow>
   transcripts (foldl (deliver now) a es) = transcripts a"
proof (induction es arbitrary: a)
  case Nil
  show ?case by simp
next
  case (Cons e es)
  from Cons.prems have e: "\<not> is_OnTranscriptionComplete e"
    and es: "filter is_OnTranscriptionComplete es = []"
    by (simp_all split: if_splits)
  show ?case
    by (simp add: Cons.IH [OF es] transcripts_deliver_other [OF e])
qed

text \<open>A server message, delivered to the component.\<close>

lemma transcripts_after_message:
  "transcripts (app (step s (Message message now))) =
     transcripts (app s) @
     (if message_turnComplete message \<and>
         truthy (trim (currentInputTranscriptionRef (live s) @ message_text message))
      then [\<lparr>id_field = now,
              text_field = currentInputTranscriptionRef (live s) @ message_text message,
              from_field = js ''Live Recording''\<rparr>]
      else [])"
  by (cases "message_inputTranscription message")
     (simp_all add: run_hook_def Let_def onmessage_eq emitted_def
        handleTranscriptionUpdate_def handleTranscriptionComplete_def)

text \<open>The flush of \<open>stop\<close>, delivered to the component.\<close>

lemma transcripts_after_stop:
  assumes "isRecording (live s)" and "sessionPromiseRef (live s) = Some p"
  shows "transcripts (app (step s (ToggleRecording env now))) =
     transcripts (app s) @
     (if truthy (trim (currentInputTranscriptionRef (live s)))
      then [\<lparr>id_field = now, text_field = currentInputTranscriptionRef (live s),
              from_field = js ''Live Recording''\<rparr>]
      else [])"
proof -
  define a1 where "a1 = foldl (deliver now) ((app s)\<lparr>error := None\<rparr>)
      (stop_try_effects p @ release_effects (live s))"
  have a1: "transcripts a1 = transcripts (app s)"
    unfolding a1_def
    by (subst transcripts_foldl_deliver_none)
       (simp_all add: no_complete_in_try no_complete_in_release)
  have "app (step s (ToggleRecording env now)) =
      foldl (deliver now) a1
        (if currentInputTranscriptionRef (live s) \<noteq> []
         then [OnTranscriptionComplete (currentInputTranscriptionRef (live s))] else [])"
    using assms(1)
    by (simp add: toggleRecording_def run_hook_def Let_def emitted_stop [OF assms(2)] a1_def)
  then show ?thesis
    by (auto simp: a1 handleTranscriptionComplete_def Let_def truthy_def trim_def)
qed

text \<open>
  Claim C3, as amended. A completion adds a record only when its text is not blank. A
  server message with \<open>turnComplete\<close> appends the record (identifier \<open>Date.now()\<close>, the
  accumulated text, the label \<open>Live Recording\<close>) at the end of the list exactly when that
  text has a character that \<open>trim\<close> keeps; so does \<open>stop\<close> on a recording session, with
  the text of the buffer; and \<open>handleTranscriptionComplete\<close> does so for any text it is
  called with. A file upload whose response has a text appends the record (identifier,
  the text, the file's name as label) at the end exactly when that text has such a
  character. Otherwise the list is unchanged.
\<close>

theorem record_appended_when_text_not_blank:
  "transcripts (app (step s (Message message now))) =
     transcripts (app s) @
     (if message_turnComplete message \<and>
         truthy (trim (currentInputTranscriptionRef (live s) @ message_text message))
      then [\<lparr>id_field = now,
              text_field = currentInputTranscriptionRef (live s) @ message_text message,
              from_field = js ''Live Recording''\<rparr>]
      else []) \<and>
   (isRecording (live s) \<and> sessionPromiseRef (live s) = Some p \<longrightarrow>
      transcripts (app (step s (ToggleRecording env now))) =
        transcripts (app s) @
        (if truthy (trim (currentInputTranscriptionRef (live s)))
         then [\<lparr>id_field = now, text_field = currentInputTranscriptionRef (live s),
                 from_field = js ''Live Recording''\<rparr>]
         else [])) \<and>
   (\<not> no_API_KEY uenv \<and> toBase64 uenv = Resolved base64Data \<and>
    generateContent uenv = Resolved (Some transcriptionText) \<longrightarrow>
      transcripts (app (step s (FileUpload uenv now (Some file)))) =
        transcripts (app s) @
        (if truthy (trim transcriptionText)
         then [\<lparr>id_field = now, text_field = transcriptionText, from_field = name file\<rparr>]
         else [])) \<and>
   transcripts (handleTranscriptionComplete now text a) =
     transcripts a @
     (if truthy (trim text)
      then [\<lparr>id_field = now, text_field = text, from_field = js ''Live Recording''\<rparr>]
      else [])"
  using transcripts_after_message [of s message now] transcripts_after_stop [of s p env now]
    handlers_append_when_text_not_blank(1) [of now "text" a]
    handlers_append_when_text_not_blank(2) [of uenv base64Data transcriptionText now "file" "app s"]
  by simp

lemma trim_examples:
  "trim (js ''good morning'') = js ''good morning''" "trim (js '' '') = []" "trim [] = []"
  by (simp_all add: trim_def js_def is_white_def)

lemma js_not_empty: "js (c # cs) \<noteq> []"
  by (simp add: js_def)

lemma trim_hello:
  "trim (js ''hello'' @ js ''world'') = js ''helloworld''" "trim (js ''hello'') = js ''hello''"
  by (simp_all add: trim_def js_def is_white_def)

theorem record_appended_when_text_not_blank_witness:
  "isRecording (live example_system) \<and>
   sessionPromiseRef (live example_system) = Some (Resolved (LiveSession False)) \<and>
   \<not> no_API_KEY example_upload \<and> toBase64 example_upload = Resolved (js ''UklGRg=='') \<and>
   generateContent example_upload = Resolved (Some (js ''good morning'')) \<and>
   transcripts (app (step example_system (Message example_world_done 20))) =
     [example_record,
      \<lparr>id_field = 20, text_field = js ''helloworld'', from_field = js ''Live Recording''\<rparr>] \<and>
   transcripts (app (step example_system (ToggleRecording example_env 30))) =
     [example_record,
      \<lparr>id_field = 30, text_field = js ''hello'', from_field = js ''Live Recording''\<rparr>] \<and>
   transcripts (app (step example_system (FileUpload example_upload 40 (Some example_file)))) =
     [example_record,
      \<lparr>id_field = 40, text_field = js ''good morning'', from_field = js ''memo.wav''\<rparr>]"
proof -
  have l: "isRecording (live example_system)"
    "sessionPromiseRef (live example_system) = Some (Resolved (LiveSession False))"
    "currentInputTranscriptionRef (live example_system) = js ''hello''"
    "transcripts (app example_system) = [example_record]"
    by (simp_all add: example_system_def example_live_eq example_app_def App_initial_def)
  have u: "\<not> no_API_KEY example_upload" "toBase64 example_upload = Resolved (js ''UklGRg=='')"
    "generateContent example_upload = Resolved (Some (js ''good morning''))"
    by (simp_all add: no_API_KEY_def truthy_def js_not_empty example_upload_def)
  have m: "message_turnComplete example_world_done"
    "message_text example_world_done = js ''world''"
    by (simp_all add: example_world_done_def message_turnComplete_def message_text_def
        ToString_def message_inputTranscription_def)
  have 1: "transcripts (app (step example_system (Message example_world_done 20))) =
     [example_record,
      \<lparr>id_field = 20, text_field = js ''helloworld'', from_field = js ''Live Recording''\<rparr>]"
    using record_appended_when_text_not_blank
      [of example_system example_world_done 20 "Resolved (LiveSession False)" example_env
        example_upload "js ''UklGRg==''" "js ''good morning''" example_file "[]" App_initial]
    by (simp only: l m trim_hello truthy_def) (simp add: js_def)
  have 2: "transcripts (app (step example_system (ToggleRecording example_env 30))) =
     [example_record,
      \<lparr>id_field = 30, text_field = js ''hello'', from_field = js ''Live Recording''\<rparr>]"
    using record_appended_when_text_not_blank
      [of example_system example_world_done 30 "Resolved (LiveSession False)" example_env
        example_upload "js ''UklGRg==''" "js ''good morning''" example_file "[]" App_initial] l
    by (simp add: trim_hello truthy_def js_not_empty)
  have 3: "transcripts (app (step example_system
       (FileUpload example_upload 40 (Some example_file)))) =
     [example_record,
      \<lparr>id_field = 40, text_field = js ''good morning'', from_field = js ''memo.wav''\<rparr>]"
    using record_appended_when_text_not_blank
      [of example_system example_world_done 40 "Resolved (LiveSession False)" example_env
        example_upload "js ''UklGRg==''" "js ''good morning''" example_file "[]" App_initial] l u
    by (simp add: trim_examples truthy_def js_not_empty example_file_def)
  from l(1,2) u 1 2 3 show ?thesis by blast
qed

text \<open>
  The claim as first stated fails: a live turn that completes with the text of one space,
  and an upload whose response text is empty, both complete without creating a record.
\<close>

theorem completion_without_record:
  "transcripts
     (app (run system_initial
        [ToggleRecording example_env 10, Open, Message example_blank_done 20])) = [] \<and>
   OnTranscriptionComplete (js '' '') \<in>
     set (emitted (onopen (start example_env useGeminiLive))
            (onmessage example_blank_done (onopen (start example_env useGeminiLive)))) \<and>
   transcripts
     (handleFileUpload (example_upload\<lparr>generateContent := Resolved (Some [])\<rparr>) 2
        (Some example_file) App_initial) = []"
proof -
  have live: "live (run system_initial [ToggleRecording example_env 10, Open]) =
      onopen (start example_env useGeminiLive)"
    by (simp add: run_def toggleRecording_def run_hook_def Let_def system_initial_def
        useGeminiLive_def)
  have em: "emitted h (onmessage example_blank_done h) =
      [OnTranscriptionUpdate (currentInputTranscriptionRef h @ js '' ''),
       OnTranscriptionComplete (currentInputTranscriptionRef h @ js '' '')]" for h
    by (simp add: onmessage_eq emitted_def example_blank_done_def message_text_def ToString_def
        message_inputTranscription_def message_turnComplete_def)
  have cur: "currentInputTranscriptionRef (onopen (start example_env useGeminiLive)) = []"
    by (simp add: example_env_def start_def start_try_def no_API_KEY_def truthy_def onopen_def
        perform_def useGeminiLive_def Let_def js_def)
  have start_none: "transcripts (app (run system_initial [ToggleRecording example_env 10, Open])) = []"
    by (simp add: run_def toggleRecording_def run_hook_def Let_def system_initial_def
        App_initial_def emitted_def useGeminiLive_def example_env_def start_def start_try_def
        no_API_KEY_def truthy_def onopen_def perform_def js_def)
  have "app (step s (Message example_blank_done 20)) =
      foldl (deliver 20) (app s) (emitted (live s) (onmessage example_blank_done (live s)))" for s
    by (simp add: run_hook_def Let_def)
  from this [of "run system_initial [ToggleRecording example_env 10, Open]"]
  have "transcripts (app (step
      (run system_initial [ToggleRecording example_env 10, Open])
      (Message example_blank_done 20))) = []"
    unfolding live em cur
    by (simp add: start_none handleTranscriptionUpdate_def handleTranscriptionComplete_def
        trim_examples truthy_def)
  moreover have
    "run system_initial [ToggleRecording example_env 10, Open, Message example_blank_done 20] =
      step (run system_initial [ToggleRecording example_env 10, Open])
        (Message example_blank_done 20)"
    by (simp add: run_def)
  ultimately have 1: "transcripts
     (app (run system_initial
        [ToggleRecording example_env 10, Open, Message example_blank_done 20])) = []"
    by simp
  have 2: "OnTranscriptionComplete (js '' '') \<in>
     set (emitted (onopen (start example_env useGeminiLive))
            (onmessage example_blank_done (onopen (start example_env useGeminiLive))))"
    by (simp add: em cur)
  have 3: "transcripts
     (handleFileUpload (example_upload\<lparr>generateContent := Resolved (Some [])\<rparr>) 2
        (Some example_file) App_initial) = []"
    by (simp add: handleFileUpload_def handleFileUpload_try_def handleFileUpload_finally_eq
        Let_def no_API_KEY_def truthy_def example_upload_def App_initial_def trim_examples js_def)
  from 1 2 3 show ?thesis by blast
qed

subsection \<open>Errors reach the user\<close>

text \<open>Delivery of the callbacks to the component's error state.\<close>

lemma error_deliver_other: "\<not> is_OnError e \<Longrightarrow> error (deliver now a e) = error a"
  by (cases e)
     (simp_all add: handleTranscriptionUpdate_def handleTranscriptionComplete_def Let_def)

lemma error_foldl_deliver_none:
  "filter is_OnError es = [] \<Longrightarrow> error (foldl (deliver now) a es) = error a"
proof (induction es arbitrary: a)
  case Nil
  show ?case by simp
next
  case (Cons e es)
  from Cons.prems have e: "\<not> is_OnError e" and es: "filter is_OnError es = []"
    by (simp_all split: if_splits)
  show ?case
    by (simp add: Cons.IH [OF es] error_deliver_other [OF e])
qed

lemma error_foldl_deliver_one:
  "filter is_OnError es = [OnError m] \<Longrightarrow> error (foldl (deliver now) a es) = Some m"
proof (induction es arbitrary: a)
  case Nil
  then show ?case by simp
next
  case (Cons e es)
  show ?case
  proof (cases "is_OnError e")
    case True
    with Cons.prems have e: "e = OnError m" and es: "filter is_OnError es = []"
      by simp_all
    show ?thesis
      by (simp add: e error_foldl_deliver_none [OF es] handleError_def)
  next
    case False
    with Cons.prems have es: "filter is_OnError es = [OnError m]"
      by simp
    show ?thesis
      by (simp add: Cons.IH [OF es])
  qed
qed

lemma toggleRecording_start_failure:
  assumes "\<not> isRecording (live s)"
    and "start_try env ((live s)\<lparr>isInitializing := True\<rparr>) = Inl (err, hf)"
  shows "error (app (toggleRecording env now s)) =
           Some (thrown_message ''An unknown error occurred.'' err)"
  using assms(1)
  by (simp add: toggleRecording_def run_hook_def Let_def
      error_foldl_deliver_one [OF start_failure(2) [OF assms(2)]])

lemma step_ConnectionError:
  "error (app (step s (ConnectionError m))) = Some (js ''Connection error: '' @ m)"
  by (simp add: run_hook_def Let_def error_foldl_deliver_one [OF onerror_failure(2)])

lemma handleFileUpload_no_key:
  "no_API_KEY env \<Longrightarrow>
   handleFileUpload_try env now file a =
     Inl (Error (js ''API_KEY environment variable not set.''), a)"
  by (simp add: handleFileUpload_try_def)

text \<open>
  What the two \<open>catch\<close> blocks and \<open>onerror\<close> do. Every exception of \<open>start\<close>'s \<open>try\<close>
  block (the missing API key, a rejected \<open>getUserMedia\<close>, a throwing \<open>AudioContext\<close>
  constructor) is caught in \<open>start\<close>: \<open>onError\<close> is called exactly once, with the error's
  message (or the fixed fallback), which becomes the component's \<open>error\<close>; nothing is
  attempted again; \<open>isRecording\<close> and \<open>isInitializing\<close> are false and the audio resources
  are released. A connection error reported through \<open>onerror\<close> is surfaced in the same way.
  Every exception of the upload's \<open>try\<close> block is caught in \<open>handleFileUpload\<close> and stored
  as the single \<open>error\<close> message, with no second attempt to read the file or to call the
  API.
\<close>

lemma caught_failures_surface_as_one_message:
  "(start_try env (h\<lparr>isInitializing := True\<rparr>) = Inl (err, hf) \<longrightarrow>
      filter is_OnError (emitted h (start env h)) =
        [OnError (thrown_message ''An unknown error occurred.'' err)] \<and>
      emitted h (start env h) =
        emitted h hf @
        [ConsoleError (js ''Failed to start recording:''),
         OnError (thrown_message ''An unknown error occurred.'' err)] @ release_effects hf \<and>
      count_list (emitted h (start env h)) GetUserMedia \<le> 1 \<and>
      count_list (emitted h (start env h)) NewAudioContext \<le> 1 \<and>
      LiveConnect \<notin> set (emitted h (start env h)) \<and>
      isRecording (start env h) = False \<and> isInitializing (start env h) = False \<and>
      audio_released (start env h) \<and>
      (live s = h \<and> \<not> isRecording h \<longrightarrow>
         error (app (toggleRecording env now s)) =
           Some (thrown_message ''An unknown error occurred.'' err))) \<and>
   (no_API_KEY env \<longrightarrow>
      filter is_OnError (emitted h (start env h)) =
        [OnError (js ''API_KEY environment variable not set.'')]) \<and>
   filter is_OnError (emitted h (onerror m h)) = [OnError (js ''Connection error: '' @ m)] \<and>
   isRecording (onerror m h) = False \<and> isInitializing (onerror m h) = False \<and>
   audio_released (onerror m h) \<and>
   error (app (step s (ConnectionError m))) = Some (js ''Connection error: '' @ m) \<and>
   (handleFileUpload_try uenv now file (a\<lparr>error := None, isProcessingFile := True\<rparr>) =
      Inl (uerr, af) \<longrightarrow>
      error (handleFileUpload uenv now (Some file) a) =
        Some (thrown_message ''An unknown error occurred during file transcription.'' uerr) \<and>
      count_list (drop (length (calls a)) (calls (handleFileUpload uenv now (Some file) a)))
        ReadAsDataURL \<le> 1 \<and>
      count_list (drop (length (calls a)) (calls (handleFileUpload uenv now (Some file) a)))
        GenerateContent \<le> 1) \<and>
   (no_API_KEY uenv \<longrightarrow>
      error (handleFileUpload uenv now (Some file) a) =
        Some (js ''API_KEY environment variable not set.''))"
proof -
  have 1: "start_try env (h\<lparr>isInitializing := True\<rparr>) = Inl (err, hf) \<longrightarrow>
      filter is_OnError (emitted h (start env h)) =
        [OnError (thrown_message ''An unknown error occurred.'' err)] \<and>
      emitted h (start env h) =
        emitted h hf @
        [ConsoleError (js ''Failed to start recording:''),
         OnError (thrown_message ''An unknown error occurred.'' err)] @ release_effects hf \<and>
      count_list (emitted h (start env h)) GetUserMedia \<le> 1 \<and>
      count_list (emitted h (start env h)) NewAudioContext \<le> 1 \<and>
      LiveConnect \<notin> set (emitted h (start env h)) \<and>
      isRecording (start env h) = False \<and> isInitializing (start env h) = False \<and>
      audio_released (start env h) \<and>
      (live s = h \<and> \<not> isRecording h \<longrightarrow>
         error (app (toggleRecording env now s)) =
           Some (thrown_message ''An unknown error occurred.'' err))"
  proof
    assume f: "start_try env (h\<lparr>isInitializing := True\<rparr>) = Inl (err, hf)"
    have "live s = h \<and> \<not> isRecording h \<longrightarrow>
         error (app (toggleRecording env now s)) =
           Some (thrown_message ''An unknown error occurred.'' err)"
      using toggleRecording_start_failure [of s env err hf now] f by blast
    with start_failure [OF f] show "filter is_OnError (emitted h (start env h)) =
        [OnError (thrown_message ''An unknown error occurred.'' err)] \<and>
      emitted h (start env h) =
        emitted h hf @
        [ConsoleError (js ''Failed to start recording:''),
         OnError (thrown_message ''An unknown error occurred.'' err)] @ release_effects hf \<and>
      count_list (emitted h (start env h)) GetUserMedia \<le> 1 \<and>
      count_list (emitted h (start env h)) NewAudioContext \<le> 1 \<and>
      LiveConnect \<notin> set (emitted h (start env h)) \<and>
      isRecording (start env h) = False \<and> isInitializing (start env h) = False \<and>
      audio_released (start env h) \<and>
      (live s = h \<and> \<not> isRecording h \<longrightarrow>
         error (app (toggleRecording env now s)) =
           Some (thrown_message ''An unknown error occurred.'' err))"
      by blast
  qed
  have 2: "no_API_KEY env \<longrightarrow>
      filter is_OnError (emitted h (start env h)) =
        [OnError (js ''API_KEY environment variable not set.'')]"
  proof
    assume "no_API_KEY env"
    from start_failure(2) [OF start_try_no_key [OF this]]
    show "filter is_OnError (emitted h (start env h)) =
        [OnError (js ''API_KEY environment variable not set.'')]"
      by (simp add: thrown_message_def)
  qed
  have 3: "filter is_OnError (emitted h (onerror m h)) =
      [OnError (js ''Connection error: '' @ m)] \<and>
    isRecording (onerror m h) = False \<and> isInitializing (onerror m h) = False \<and>
    audio_released (onerror m h) \<and>
    error (app (step s (ConnectionError m))) = Some (js ''Connection error: '' @ m)"
    using onerror_failure [where h = h and m = m] step_ConnectionError [of s m] by blast
  have 4: "handleFileUpload_try uenv now file (a\<lparr>error := None, isProcessingFile := True\<rparr>) =
      Inl (uerr, af) \<longrightarrow>
      error (handleFileUpload uenv now (Some file) a) =
        Some (thrown_message ''An unknown error occurred during file transcription.'' uerr) \<and>
      count_list (drop (length (calls a)) (calls (handleFileUpload uenv now (Some file) a)))
        ReadAsDataURL \<le> 1 \<and>
      count_list (drop (length (calls a)) (calls (handleFileUpload uenv now (Some file) a)))
        GenerateContent \<le> 1"
  proof
    assume f: "handleFileUpload_try uenv now file (a\<lparr>error := None, isProcessingFile := True\<rparr>) =
      Inl (uerr, af)"
    from handleFileUpload_failure [OF f]
    show "error (handleFileUpload uenv now (Some file) a) =
        Some (thrown_message ''An unknown error occurred during file transcription.'' uerr) \<and>
      count_list (drop (length (calls a)) (calls (handleFileUpload uenv now (Some file) a)))
        ReadAsDataURL \<le> 1 \<and>
      count_list (drop (length (calls a)) (calls (handleFileUpload uenv now (Some file) a)))
        GenerateContent \<le> 1"
      by auto
  qed
  have 5: "no_API_KEY uenv \<longrightarrow>
      error (handleFileUpload uenv now (Some file) a) =
        Some (js ''API_KEY environment variable not set.'')"
  proof
    assume "no_API_KEY uenv"
    from handleFileUpload_failure
      [OF handleFileUpload_no_key
        [OF this, of now "file" "a\<lparr>error := None, isProcessingFile := True\<rparr>"]]
    show "error (handleFileUpload uenv now (Some file) a) =
        Some (js ''API_KEY environment variable not set.'')"
      by (auto simp: thrown_message_def)
  qed
  from 1 2 3 4 5 show ?thesis by blast
qed

text \<open>
  Claim C6 fails on the code at a connection promise that rejects. \<open>start\<close> stores the
  promise of \<open>ai.live.connect\<close> without awaiting it (line 77), so its rejection is not an
  exception of the \<open>try\<close> block: \<open>start\<close> returns normally, \<open>onError\<close> is not called and
  the component's \<open>error\<close> stays empty, \<open>isInitializing\<close> stays true, and the stream and
  the audio context stay held. The \<open>try\<close> of \<open>stop\<close> (lines 46-51) does expect this promise
  to reject.
\<close>

theorem rejected_connection_is_not_surfaced:
  "sessionPromiseRef (start example_unreachable useGeminiLive) =
     Some (Rejected (Error (js ''handshake failed''))) \<and>
   emitted useGeminiLive (start example_unreachable useGeminiLive) =
     [GetUserMedia, NewAudioContext, LiveConnect] \<and>
   filter is_OnError (emitted useGeminiLive (start example_unreachable useGeminiLive)) = [] \<and>
   isInitializing (start example_unreachable useGeminiLive) = True \<and>
   mediaStreamRef (start example_unreachable useGeminiLive) = Some (MediaStream [0, 1]) \<and>
   audioContextRef (start example_unreachable useGeminiLive) =
     Some \<lparr>state = running, sampleRate = 16000\<rparr> \<and>
   audio_released (start example_unreachable useGeminiLive) = False \<and>
   error (app (step system_initial (ToggleRecording example_unreachable 10))) = None \<and>
   isInitializing (live (step system_initial (ToggleRecording example_unreachable 10))) = True"
proof -
  have st: "start example_unreachable useGeminiLive =
     \<lparr>isRecording = False, isInitializing = True,
      sessionPromiseRef = Some (Rejected (Error (js ''handshake failed''))),
      mediaStreamRef = Some (MediaStream [0, 1]),
      audioContextRef = Some \<lparr>state = running, sampleRate = 16000\<rparr>,
      scriptProcessorRef = None, currentInputTranscriptionRef = [],
      trace = [\<lparr>effect = GetUserMedia, buffer_at_call = []\<rparr>,
               \<lparr>effect = NewAudioContext, buffer_at_call = []\<rparr>,
               \<lparr>effect = LiveConnect, buffer_at_call = []\<rparr>]\<rparr>"
    by (simp add: example_unreachable_def example_env_def start_def start_try_def
        no_API_KEY_def truthy_def js_not_empty perform_def useGeminiLive_def Let_def)
  have em: "emitted useGeminiLive (start example_unreachable useGeminiLive) =
     [GetUserMedia, NewAudioContext, LiveConnect]"
    by (simp add: st emitted_def) (simp add: useGeminiLive_def)
  have sy: "step system_initial (ToggleRecording example_unreachable 10) =
     \<lparr>app = App_initial, live = start example_unreachable useGeminiLive\<rparr>"
    by (simp add: toggleRecording_def run_hook_def Let_def system_initial_def em)
       (simp add: useGeminiLive_def App_initial_def)
  show ?thesis
    unfolding sy em by (simp add: st audio_released_def App_initial_def)
qed


subsection \<open>A session started after a connection error\<close>

lemma example_after_error:
  "onerror (js ''lost'') example_live =
     \<lparr>isRecording = False, isInitializing = False,
      sessionPromiseRef = Some (Resolved (LiveSession False)),
      mediaStreamRef = None, audioContextRef = None, scriptProcessorRef = None,
      currentInputTranscriptionRef = js ''hello'',
      trace = trace example_live @
        map (stamp example_live)
          [ConsoleError (js ''Gemini Live API Error:''),
           OnError (js ''Connection error: '' @ js ''lost''),
           TrackStop 0, TrackStop 1, ScriptProcessorDisconnect, AudioContextClose]\<rparr>"
  by (simp add: onerror_eq release_effects_def example_live_eq)

text \<open>
  Claim C1 fails on the code when a session follows one that ended in a connection
  error. \<open>stop\<close> flushes and clears the buffer (lines 55-58), but \<open>onerror\<close> (lines
  112-118) and \<open>start\<close> do not: after a session that received \<open>hello\<close> and then a
  connection error, the next session's first fragment \<open>again\<close> makes the buffer
  \<open>helloagain\<close>, which is also what \<open>onTranscriptionUpdate\<close> shows, while the fragments
  received since that session started are \<open>again\<close>. A transcription object without
  \<open>text\<close> adds the word \<open>undefined\<close> to the buffer.
\<close>

theorem buffer_keeps_text_of_failed_session:
  "currentInputTranscriptionRef (live (run system_initial example_restart)) =
     js ''helloagain'' \<and>
   currentTranscription (app (run system_initial example_restart)) = js ''helloagain'' \<and>
   fragments_since_turnComplete [example_again] = js ''again'' \<and>
   currentInputTranscriptionRef (onmessage example_textless useGeminiLive) = js ''undefined''"
proof -
  have s3: "run system_initial
      [ToggleRecording example_env 10, Open, Message example_hello 20] =
      \<lparr>app = App_initial\<lparr>currentTranscription := js ''hello''\<rparr>, live = example_live\<rparr>"
    by (simp add: run_def toggleRecording_def run_hook_def Let_def system_initial_def
        example_live_def example_env_def start_def start_try_def no_API_KEY_def truthy_def
        js_not_empty onopen_def onmessage_eq perform_def useGeminiLive_def emitted_def
        example_hello_def message_inputTranscription_def message_turnComplete_def
        message_text_def ToString_def handleTranscriptionUpdate_def App_initial_def)
  have s4: "run system_initial
      [ToggleRecording example_env 10, Open, Message example_hello 20,
       ConnectionError (js ''lost'')] =
      \<lparr>app = App_initial\<lparr>currentTranscription := js ''hello'',
               error := Some (js ''Connection error: '' @ js ''lost'')\<rparr>,
       live = onerror (js ''lost'') example_live\<rparr>"
  proof -
    have "run system_initial
      [ToggleRecording example_env 10, Open, Message example_hello 20,
       ConnectionError (js ''lost'')] =
      step (run system_initial
        [ToggleRecording example_env 10, Open, Message example_hello 20])
        (ConnectionError (js ''lost''))"
      by (simp add: run_def)
    then show ?thesis
      unfolding s3
      by (simp add: run_hook_def Let_def onerror_failure(1) release_effects_def
          example_live_eq handleError_def)
  qed
  define h5 where "h5 = onopen (start example_env (onerror (js ''lost'') example_live))"
  have cur5: "currentInputTranscriptionRef h5 = js ''hello''"
    by (simp add: h5_def example_after_error example_env_def start_def start_try_def
        no_API_KEY_def truthy_def js_not_empty onopen_def perform_def Let_def)
  have s6: "live (run system_initial
      [ToggleRecording example_env 10, Open, Message example_hello 20,
       ConnectionError (js ''lost''), ToggleRecording example_env 30, Open]) = h5"
  proof -
    have "run system_initial
      [ToggleRecording example_env 10, Open, Message example_hello 20,
       ConnectionError (js ''lost''), ToggleRecording example_env 30, Open] =
      step (step (run system_initial
        [ToggleRecording example_env 10, Open, Message example_hello 20,
         ConnectionError (js ''lost'')]) (ToggleRecording example_env 30)) Open"
      by (simp add: run_def)
    then show ?thesis
      unfolding s4
      by (simp add: h5_def toggleRecording_def run_hook_def Let_def example_after_error)
  qed
  have em: "emitted h5 (onmessage example_again h5) = [OnTranscriptionUpdate (js ''helloagain'')]"
    by (simp add: onmessage_eq emitted_def cur5 example_again_def message_text_def ToString_def
        message_inputTranscription_def message_turnComplete_def js_def)
  have cur: "currentInputTranscriptionRef (onmessage example_again h5) = js ''helloagain''"
    by (simp add: onmessage_eq cur5 example_again_def message_text_def ToString_def
        message_inputTranscription_def message_turnComplete_def js_def)
  have "run system_initial example_restart =
      step (run system_initial
        [ToggleRecording example_env 10, Open, Message example_hello 20,
         ConnectionError (js ''lost''), ToggleRecording example_env 30, Open])
        (Message example_again 40)"
    by (simp add: run_def example_restart_def)
  then have 1: "currentInputTranscriptionRef (live (run system_initial example_restart)) =
      js ''helloagain''"
    and 2: "currentTranscription (app (run system_initial example_restart)) = js ''helloagain''"
    by (simp_all add: run_hook_def Let_def s6 em cur handleTranscriptionUpdate_def)
  have 3: "fragments_since_turnComplete [example_again] = js ''again''"
    by (simp add: fragments_since_turnComplete_def example_again_def message_text_def
        ToString_def message_inputTranscription_def message_turnComplete_def)
  have 4: "currentInputTranscriptionRef (onmessage example_textless useGeminiLive) =
      js ''undefined''"
    by (simp add: onmessage_eq example_textless_def message_text_def ToString_def
        message_inputTranscription_def message_turnComplete_def useGeminiLive_def)
  from 1 2 3 4 show ?thesis by blast
qed


end
